theory Spec2Isabelle
  imports Complex_Main "HOL-Library.Multiset" "HOL-Library.Char_ord" "HOL-Library.List_Lexorder"
begin

section \<open>JavaScript numbers\<close>

text \<open>
  A JavaScript \<open>number\<close> is modelled by its four kinds of value: \<open>NaN\<close>, the two
  infinities and the finite values. Finite values are carried as reals, so the model
  computes on them without rounding and without overflow, and it has one zero
  (\<open>-0 === 0\<close> in JavaScript, and with exact products no function below divides by
  zero). The operations on \<open>NaN\<close> and the infinities are the IEEE-754 ones. The
  examples below compute on small integers and on \<open>1/2\<close>, where doubles are exact.
\<close>

datatype number = NaN | NegInf | Fin real | PosInf

fun js_neg :: "number \<Rightarrow> number" where
  "js_neg NaN = NaN"
| "js_neg NegInf = PosInf"
| "js_neg (Fin x) = Fin (- x)"
| "js_neg PosInf = NegInf"

fun js_add :: "number \<Rightarrow> number \<Rightarrow> number" where
  "js_add NaN b = NaN"
| "js_add a NaN = NaN"
| "js_add (Fin x) (Fin y) = Fin (x + y)"
| "js_add (Fin x) PosInf = PosInf"
| "js_add (Fin x) NegInf = NegInf"
| "js_add PosInf (Fin y) = PosInf"
| "js_add PosInf PosInf = PosInf"
| "js_add PosInf NegInf = NaN"
| "js_add NegInf (Fin y) = NegInf"
| "js_add NegInf NegInf = NegInf"
| "js_add NegInf PosInf = NaN"

definition js_sub :: "number \<Rightarrow> number \<Rightarrow> number" where
  "js_sub a b = js_add a (js_neg b)"

text \<open>The sign of a product with an infinite factor: \<open>Infinity * 0\<close> is \<open>NaN\<close>.\<close>

definition signed_inf :: "real \<Rightarrow> number" where
  "signed_inf s = (if s = 0 then NaN else if 0 < s then PosInf else NegInf)"

fun js_mul :: "number \<Rightarrow> number \<Rightarrow> number" where
  "js_mul NaN b = NaN"
| "js_mul a NaN = NaN"
| "js_mul (Fin x) (Fin y) = Fin (x * y)"
| "js_mul (Fin x) PosInf = signed_inf x"
| "js_mul (Fin x) NegInf = signed_inf (- x)"
| "js_mul PosInf (Fin y) = signed_inf y"
| "js_mul NegInf (Fin y) = signed_inf (- y)"
| "js_mul PosInf PosInf = PosInf"
| "js_mul PosInf NegInf = NegInf"
| "js_mul NegInf PosInf = NegInf"
| "js_mul NegInf NegInf = PosInf"

fun js_div :: "number \<Rightarrow> number \<Rightarrow> number" where
  "js_div NaN b = NaN"
| "js_div a NaN = NaN"
| "js_div (Fin x) (Fin y) = (if y = 0 then signed_inf x else Fin (x / y))"
| "js_div (Fin x) PosInf = Fin 0"
| "js_div (Fin x) NegInf = Fin 0"
| "js_div PosInf (Fin y) = (if 0 \<le> y then PosInf else NegInf)"
| "js_div NegInf (Fin y) = (if 0 \<le> y then NegInf else PosInf)"
| "js_div PosInf PosInf = NaN"
| "js_div PosInf NegInf = NaN"
| "js_div NegInf PosInf = NaN"
| "js_div NegInf NegInf = NaN"

fun js_sqrt :: "number \<Rightarrow> number" where
  "js_sqrt NaN = NaN"
| "js_sqrt NegInf = NaN"
| "js_sqrt (Fin x) = (if x < 0 then NaN else Fin (sqrt x))"
| "js_sqrt PosInf = PosInf"

text \<open>\<open>a >= b\<close> and \<open>a > b\<close>: false as soon as one side is \<open>NaN\<close>.\<close>

fun js_ge :: "number \<Rightarrow> number \<Rightarrow> bool" where
  "js_ge NaN b = False"
| "js_ge a NaN = False"
| "js_ge PosInf b = True"
| "js_ge a NegInf = True"
| "js_ge (Fin x) (Fin y) = (y \<le> x)"
| "js_ge (Fin x) PosInf = False"
| "js_ge NegInf b = False"

fun js_gt :: "number \<Rightarrow> number \<Rightarrow> bool" where
  "js_gt NaN b = False"
| "js_gt a NaN = False"
| "js_gt NegInf b = False"
| "js_gt a PosInf = False"
| "js_gt (Fin x) (Fin y) = (y < x)"
| "js_gt PosInf b = True"
| "js_gt (Fin x) NegInf = True"

text \<open>Truthiness of a number: \<open>0\<close> and \<open>NaN\<close> are falsy.\<close>

definition truthy :: "number \<Rightarrow> bool" where
  "truthy a = (a \<noteq> Fin 0 \<and> a \<noteq> NaN)"

text \<open>\<open>x || d\<close> for an optional numeric argument \<open>x\<close> (\<open>None\<close> is \<open>undefined\<close>).\<close>

definition orDefault :: "number option \<Rightarrow> number \<Rightarrow> number" where
  "orDefault x d = (case x of None \<Rightarrow> d | Some a \<Rightarrow> if truthy a then a else d)"

section \<open>The vector library (convex/lib/vectors.ts)\<close>

text \<open>\<open>Vector dimension mismatch: ${a.length} vs ${b.length}\<close>\<close>

datatype error = DimensionMismatch nat nat

text \<open>
  The loops run \<open>i\<close> from \<open>0\<close> to \<open>a.length\<close> and add into an accumulator that starts
  at \<open>0\<close>: a left fold over the entries, in index order. They are only reached when
  both arrays have the same length.
\<close>

definition dotLoop :: "number list \<Rightarrow> number list \<Rightarrow> number" where
  "dotLoop a b = foldl (\<lambda>s (x, y). js_add s (js_mul x y)) (Fin 0) (zip a b)"

definition squareLoop :: "number list \<Rightarrow> number" where
  "squareLoop v = foldl (\<lambda>s x. js_add s (js_mul x x)) (Fin 0) v"

definition diffLoop :: "number list \<Rightarrow> number list \<Rightarrow> number" where
  "diffLoop a b =
     foldl (\<lambda>s (x, y). js_add s (js_mul (js_sub x y) (js_sub x y))) (Fin 0) (zip a b)"

definition cosineSimilarity :: "number list \<Rightarrow> number list \<Rightarrow> error + number" where
  "cosineSimilarity a b =
     (if length a \<noteq> length b then Inl (DimensionMismatch (length a) (length b))
      else
        let dotProduct = dotLoop a b;
            magnitudeA = js_sqrt (squareLoop a);
            magnitudeB = js_sqrt (squareLoop b)
        in if magnitudeA = Fin 0 \<or> magnitudeB = Fin 0 then Inr (Fin 0)
           else Inr (js_div dotProduct (js_mul magnitudeA magnitudeB)))"

definition cosineSimilarityWithMagnitude ::
  "number list \<Rightarrow> number list \<Rightarrow> number \<Rightarrow> number \<Rightarrow> error + number" where
  "cosineSimilarityWithMagnitude a b magnitudeA magnitudeB =
     (if length a \<noteq> length b then Inl (DimensionMismatch (length a) (length b))
      else
        let dotProduct = dotLoop a b
        in if magnitudeA = Fin 0 \<or> magnitudeB = Fin 0 then Inr (Fin 0)
           else Inr (js_div dotProduct (js_mul magnitudeA magnitudeB)))"

definition calculateMagnitude :: "number list \<Rightarrow> number" where
  "calculateMagnitude v = js_sqrt (squareLoop v)"

definition euclideanDistance :: "number list \<Rightarrow> number list \<Rightarrow> error + number" where
  "euclideanDistance a b =
     (if length a \<noteq> length b then Inl (DimensionMismatch (length a) (length b))
      else Inr (js_sqrt (diffLoop a b)))"

definition dotProduct :: "number list \<Rightarrow> number list \<Rightarrow> error + number" where
  "dotProduct a b =
     (if length a \<noteq> length b then Inl (DimensionMismatch (length a) (length b))
      else Inr (dotLoop a b))"

text \<open>
  \<open>validateVector\<close>: the tests \<open>Array.isArray(vector)\<close> and \<open>typeof val === 'number'\<close>
  hold by the types; \<open>expectedDimensions\<close> is only compared when it is truthy.
\<close>

definition js_isNaN :: "number \<Rightarrow> bool" where
  "js_isNaN v = (v = NaN)"

definition js_isFinite :: "number \<Rightarrow> bool" where
  "js_isFinite v = (case v of Fin x \<Rightarrow> True | _ \<Rightarrow> False)"

definition validateVector :: "number list \<Rightarrow> number option \<Rightarrow> bool" where
  "validateVector vector expectedDimensions =
     (if (case expectedDimensions of
            None \<Rightarrow> False
          | Some d \<Rightarrow> truthy d \<and> Fin (real (length vector)) \<noteq> d)
      then False
      else list_all (\<lambda>val. \<not> js_isNaN val \<and> js_isFinite val) vector)"

subsection \<open>Arrays: map with a callback that may throw, sort, slice\<close>

text \<open>
  \<open>Array.prototype.map\<close> calls the callback on the elements in index order; the first
  exception ends the call.
\<close>

fun mapE :: "('a \<Rightarrow> error + 'b) \<Rightarrow> 'a list \<Rightarrow> error + 'b list" where
  "mapE f [] = Inr []"
| "mapE f (x # xs) =
     (case f x of
        Inl e \<Rightarrow> Inl e
      | Inr y \<Rightarrow> (case mapE f xs of Inl e \<Rightarrow> Inl e | Inr ys \<Rightarrow> Inr (y # ys)))"

text \<open>
  \<open>Array.prototype.sort(cmp)\<close> is a stable sort: \<open>cmp(x, y) > 0\<close> puts \<open>x\<close> after
  \<open>y\<close>, and elements the comparator does not separate (result \<open>0\<close> or \<open>NaN\<close>) keep
  their order. It is modelled as the stable insertion sort driven by the sign of the
  comparator.
\<close>

fun insertSorted :: "('a \<Rightarrow> 'a \<Rightarrow> number) \<Rightarrow> 'a \<Rightarrow> 'a list \<Rightarrow> 'a list" where
  "insertSorted cmp x [] = [x]"
| "insertSorted cmp x (y # ys) =
     (if js_gt (cmp x y) (Fin 0) then y # insertSorted cmp x ys else x # y # ys)"

definition sortWith :: "('a \<Rightarrow> 'a \<Rightarrow> number) \<Rightarrow> 'a list \<Rightarrow> 'a list" where
  "sortWith cmp xs = foldr (insertSorted cmp) xs []"

text \<open>\<open>ToIntegerOrInfinity\<close> on a finite number: truncation towards zero.\<close>

definition truncInt :: "real \<Rightarrow> int" where
  "truncInt r = (if 0 \<le> r then \<lfloor>r\<rfloor> else \<lceil>r\<rceil>)"

text \<open>
  \<open>xs.slice(0, end)\<close>: \<open>end\<close> is converted with \<open>ToIntegerOrInfinity\<close> (\<open>NaN\<close> becomes
  \<open>0\<close>); a negative \<open>end\<close> counts from the end of the array.
\<close>

fun slice0 :: "'a list \<Rightarrow> number \<Rightarrow> 'a list" where
  "slice0 xs NaN = []"
| "slice0 xs NegInf = []"
| "slice0 xs PosInf = xs"
| "slice0 xs (Fin r) =
     (if truncInt r < 0 then take (nat (int (length xs) + truncInt r)) xs
      else take (nat (truncInt r)) xs)"

subsection \<open>topKSimilar\<close>

record candidate =
  cand_id :: string
  cand_embedding :: "number list"
  cand_magnitude :: "number option"

record scored =
  item_id :: string
  similarity :: number

text \<open>
  The similarity \<open>topKSimilar\<close> computes for one candidate: the cached variant when
  \<open>vec.magnitude\<close> is truthy (present, not \<open>0\<close>, not \<open>NaN\<close>), the raw one otherwise.
\<close>

definition candidateSimilarity :: "number list \<Rightarrow> candidate \<Rightarrow> error + number" where
  "candidateSimilarity query vec =
     (case cand_magnitude vec of
        Some m \<Rightarrow>
          if truthy m
          then cosineSimilarityWithMagnitude query (cand_embedding vec) (calculateMagnitude query) m
          else cosineSimilarity query (cand_embedding vec)
      | None \<Rightarrow> cosineSimilarity query (cand_embedding vec))"

definition scoreCandidate :: "number list \<Rightarrow> candidate \<Rightarrow> error + scored" where
  "scoreCandidate query vec =
     (case candidateSimilarity query vec of
        Inl e \<Rightarrow> Inl e
      | Inr s \<Rightarrow> Inr \<lparr>item_id = cand_id vec, similarity = s\<rparr>)"

text \<open>The parameter \<open>threshold\<close> has the default \<open>0\<close> (\<open>None\<close> is an omitted argument).\<close>

definition topKSimilar ::
  "number list \<Rightarrow> candidate list \<Rightarrow> number \<Rightarrow> number option \<Rightarrow> error + scored list" where
  "topKSimilar query vectors k threshold =
     (case mapE (scoreCandidate query) vectors of
        Inl e \<Rightarrow> Inl e
      | Inr similarities \<Rightarrow>
          Inr (slice0
                (sortWith (\<lambda>a b. js_sub (similarity b) (similarity a))
                   (filter (\<lambda>item. js_ge (similarity item)
                                      (case threshold of None \<Rightarrow> Fin 0 | Some t \<Rightarrow> t))
                      similarities))
                k))"

section \<open>The database\<close>

text \<open>
  The tables of convex/schema.ts, with the fields the search handlers read. A table is
  the list of its documents in the order in which \<open>ctx.db.query(table)\<close> yields them.
  Convex yields the documents of a table, and the documents an index equality selects,
  in ascending creation order unless the query asks for another order with
  \<open>.order("desc")\<close>; no handler below does. \<open>createdAt\<close> is the millisecond timestamp
  \<open>Date.now()\<close> that the writers store, a natural number. The argument validator
  \<open>v.array(v.number())\<close> of the handlers admits every number, \<open>NaN\<close> and the
  infinities included.
\<close>

record document =
  doc_id :: string
  doc_title :: string

record chunk =
  chunk_id :: string
  chunk_documentId :: string
  chunk_content :: string
  chunk_embedding :: "number list option"
  chunk_magnitude :: "number option"

record chunkEmbedding =
  emb_id :: string
  emb_chunkId :: string
  emb_embedding :: "number list"
  emb_magnitude :: number
  emb_model :: string
  emb_createdAt :: nat

datatype memoryType = Episodic | Semantic | Procedural

record vectorMemory =
  mem_id :: string
  mem_memoryType :: memoryType
  mem_content :: string
  mem_embedding :: "number list"
  mem_magnitude :: number
  mem_agentId :: "string option"

record database =
  documents :: "document list"
  chunks :: "chunk list"
  chunkEmbeddings :: "chunkEmbedding list"
  vectorMemories :: "vectorMemory list"

text \<open>\<open>ctx.db.get(id)\<close>: the document with that id, or \<open>null\<close>.\<close>

definition getDocument :: "database \<Rightarrow> string \<Rightarrow> document option" where
  "getDocument db i = find (\<lambda>d. doc_id d = i) (documents db)"

definition getChunk :: "database \<Rightarrow> string \<Rightarrow> chunk option" where
  "getChunk db i = find (\<lambda>c. chunk_id c = i) (chunks db)"

text \<open>\<open>[...new Set(xs)]\<close>: the first occurrence of each element, in order.\<close>

definition uniq :: "'a list \<Rightarrow> 'a list" where
  "uniq xs = rev (remdups (rev xs))"

text \<open>
  The \<open>docMap\<close> of the handlers: the documents fetched for the ids, those found,
  keyed by their id (in \<open>new Map(entries)\<close> a later entry replaces an earlier one).
\<close>

definition docMap :: "database \<Rightarrow> string list \<Rightarrow> (string \<rightharpoonup> document)" where
  "docMap db documentIds =
     map_of (rev (map (\<lambda>d. (doc_id d, d)) (List.map_filter (getDocument db) documentIds)))"

text \<open>Truthiness of an optional string argument: \<open>undefined\<close> and \<open>""\<close> are falsy.\<close>

definition truthyStr :: "string option \<Rightarrow> bool" where
  "truthyStr x = (case x of None \<Rightarrow> False | Some s \<Rightarrow> s \<noteq> [])"

text \<open>
  The scoring pipeline the three handlers share: \<open>map\<close> to the pair of the document
  and its similarity, \<open>filter\<close> by the threshold, \<open>sort\<close> descending, \<open>slice(0, limit)\<close>.
\<close>

definition rankScored :: "('a \<times> number) list \<Rightarrow> number \<Rightarrow> number \<Rightarrow> ('a \<times> number) list" where
  "rankScored scoredDocs threshold limit =
     slice0
       (sortWith (\<lambda>a b. js_sub (snd b) (snd a))
          (filter (\<lambda>result. js_ge (snd result) threshold) scoredDocs))
       limit"

section \<open>vectorSearch and searchChunks (convex/functions/vectorSearch.ts)\<close>

record vectorSearch_args =
  vs_embedding :: "number list"
  vs_memoryType :: "memoryType option"
  vs_limit :: "number option"
  vs_threshold :: "number option"
  vs_agentId :: "string option"

record vectorSearch_result =
  vr_document :: vectorMemory
  vr_similarity :: number
  vr_documentId :: string

definition vectorSearch_candidates :: "database \<Rightarrow> vectorSearch_args \<Rightarrow> vectorMemory list" where
  "vectorSearch_candidates db args =
     (if vs_memoryType args \<noteq> None \<and> truthyStr (vs_agentId args) then
        take 1000 (filter (\<lambda>m. mem_agentId m = vs_agentId args)
                     (filter (\<lambda>m. Some (mem_memoryType m) = vs_memoryType args) (vectorMemories db)))
      else if vs_memoryType args \<noteq> None then
        take 1000 (filter (\<lambda>m. Some (mem_memoryType m) = vs_memoryType args) (vectorMemories db))
      else if truthyStr (vs_agentId args) then
        take 1000 (filter (\<lambda>m. mem_agentId m = vs_agentId args) (vectorMemories db))
      else take 1000 (vectorMemories db))"

definition vectorSearch :: "database \<Rightarrow> vectorSearch_args \<Rightarrow> error + vectorSearch_result list" where
  "vectorSearch db args =
     (let limit = orDefault (vs_limit args) (Fin 10);
          threshold = orDefault (vs_threshold args) (Fin (7 / 10));
          queryMagnitude = js_sqrt (squareLoop (vs_embedding args));
          candidates = vectorSearch_candidates db args
      in case mapE (\<lambda>doc.
                case cosineSimilarityWithMagnitude (vs_embedding args) (mem_embedding doc)
                       queryMagnitude (mem_magnitude doc) of
                  Inl e \<Rightarrow> Inl e
                | Inr sim \<Rightarrow> Inr (doc, sim)) candidates of
           Inl e \<Rightarrow> Inl e
         | Inr scoredDocs \<Rightarrow>
             Inr (map (\<lambda>r. \<lparr>vr_document = fst r, vr_similarity = snd r,
                              vr_documentId = mem_id (fst r)\<rparr>)
                    (rankScored scoredDocs threshold limit)))"

record searchChunks_args =
  sc_embedding :: "number list"
  sc_limit :: "number option"
  sc_threshold :: "number option"

record searchChunks_result =
  cr_chunk :: chunk
  cr_similarity :: number
  cr_document :: "document option"

text \<open>
  The callback of \<open>chunks.map\<close> returns \<open>null\<close> for a chunk whose embedding is missing
  or whose magnitude is missing, \<open>0\<close> or \<open>NaN\<close>; the filter that follows drops the
  \<open>null\<close>s.
\<close>

definition searchChunks :: "database \<Rightarrow> searchChunks_args \<Rightarrow> error + searchChunks_result list" where
  "searchChunks db args =
     (let limit = orDefault (sc_limit args) (Fin 10);
          threshold = orDefault (sc_threshold args) (Fin (7 / 10));
          chunkDocs = take 1000 (filter (\<lambda>c. chunk_embedding c \<noteq> None \<and> chunk_magnitude c \<noteq> None)
                                 (chunks db));
          queryMagnitude = js_sqrt (squareLoop (sc_embedding args))
      in case mapE (\<lambda>c.
                case (chunk_embedding c, chunk_magnitude c) of
                  (Some e, Some m) \<Rightarrow>
                    if \<not> truthy m then Inr None
                    else (case cosineSimilarityWithMagnitude (sc_embedding args) e queryMagnitude m of
                            Inl err \<Rightarrow> Inl err
                          | Inr sim \<Rightarrow> Inr (Some (c, sim)))
                | _ \<Rightarrow> Inr None) chunkDocs of
           Inl e \<Rightarrow> Inl e
         | Inr scoredDocs \<Rightarrow>
             let results = rankScored (List.map_filter id scoredDocs) threshold limit;
                 documentIds = uniq (map (\<lambda>r. chunk_documentId (fst r)) results)
             in Inr (map (\<lambda>r. \<lparr>cr_chunk = fst r, cr_similarity = snd r,
                                 cr_document = docMap db documentIds (chunk_documentId (fst r))\<rparr>)
                       results))"

section \<open>Strings: number to string, split, parseInt\<close>

text \<open>
  \<open>`${n}`\<close> for a timestamp: the decimal digits of a natural number (the form
  JavaScript prints for every integer below \<open>10^21\<close>).
\<close>

definition digitChar :: "nat \<Rightarrow> char" where
  "digitChar d = ''0123456789'' ! d"

function showNat :: "nat \<Rightarrow> string" where
  "showNat n = (if n < 10 then [digitChar n] else showNat (n div 10) @ [digitChar (n mod 10)])"
  by pat_completeness auto
termination
  by (relation "measure id") auto

declare showNat.simps [simp del]

text \<open>\<open>s.split(c)\<close> for a one-character separator: never the empty array.\<close>

fun splitOn :: "char \<Rightarrow> string \<Rightarrow> string list" where
  "splitOn c [] = [[]]"
| "splitOn c (x # xs) =
     (if x = c then [] # splitOn c xs
      else (case splitOn c xs of [] \<Rightarrow> [[x]] | p # ps \<Rightarrow> (x # p) # ps))"

text \<open>
  \<open>parseInt(s)\<close> with no radix: leading white space is skipped, a sign is read, a
  \<open>0x\<close> prefix selects radix 16, and the longest prefix of digits is the value; with no
  digit the result is \<open>NaN\<close>. (White space is the ASCII white space here, and the
  integer read is exact.)
\<close>

definition isWhiteSpace :: "char \<Rightarrow> bool" where
  "isWhiteSpace c = (c \<in> {CHR '' '', CHR 0x09, CHR 0x0A, CHR 0x0B, CHR 0x0C, CHR 0x0D})"

definition digitValue :: "char \<Rightarrow> nat option" where
  "digitValue c =
     (let n = (of_char c :: nat)
      in if 48 \<le> n \<and> n \<le> 57 then Some (n - 48)
         else if 97 \<le> n \<and> n \<le> 122 then Some (n - 87)
         else if 65 \<le> n \<and> n \<le> 90 then Some (n - 55)
         else None)"

definition radixDigit :: "nat \<Rightarrow> char \<Rightarrow> bool" where
  "radixDigit R c = (case digitValue c of None \<Rightarrow> False | Some d \<Rightarrow> d < R)"

definition digitsValue :: "nat \<Rightarrow> string \<Rightarrow> nat" where
  "digitsValue R z =
     foldl (\<lambda>acc c. acc * R + (case digitValue c of None \<Rightarrow> 0 | Some d \<Rightarrow> d)) 0 z"

definition parseInt :: "string \<Rightarrow> number" where
  "parseInt inputString =
     (let s = dropWhile isWhiteSpace inputString;
          negative = (case s of [] \<Rightarrow> False | c # r \<Rightarrow> c = CHR ''-'');
          s1 = (case s of [] \<Rightarrow> [] | c # r \<Rightarrow> if c = CHR ''+'' \<or> c = CHR ''-'' then r else s);
          hex = (case s1 of a # b # r \<Rightarrow> a = CHR ''0'' \<and> (b = CHR ''x'' \<or> b = CHR ''X'') | _ \<Rightarrow> False);
          R = (if hex then 16 else 10);
          z = takeWhile (radixDigit R) (if hex then drop 2 s1 else s1)
      in if z = [] then NaN
         else if negative then Fin (- real (digitsValue R z))
         else Fin (real (digitsValue R z)))"

section \<open>searchChunksV2 (convex/functions/vectorSearchV2.ts)\<close>

record searchChunksV2_args =
  arg_embedding :: "number list"
  arg_limit :: "number option"
  arg_threshold :: "number option"
  arg_cursor :: "string option"
  arg_model :: "string option"

record searchChunksV2_result =
  r_chunk :: "chunk option"
  r_similarity :: number
  r_document :: "document option"
  r_embeddingId :: string

text \<open>
  The page a call returns. \<open>searchTimeMs\<close>, the wall-clock time the call took, is
  left out.
\<close>

record page =
  results :: "searchChunksV2_result list"
  nextCursor :: "string option"
  hasMore :: bool

text \<open>
  The query after \<open>if (args.model)\<close>: the documents of the table, or those the index
  \<open>by_model\<close> selects, in the order of the table.
\<close>

definition modelQuery :: "database \<Rightarrow> searchChunksV2_args \<Rightarrow> chunkEmbedding list" where
  "modelQuery db args =
     (if truthyStr (arg_model args)
      then filter (\<lambda>e. Some (emb_model e) = arg_model args) (chunkEmbeddings db)
      else chunkEmbeddings db)"

text \<open>
  The filter built from the cursor: \<open>createdAt < t\<close>, or \<open>createdAt = t\<close> and
  \<open>_id < idStr\<close>, where \<open>t\<close> is \<open>parseInt\<close> of the text before the first colon and
  \<open>idStr\<close> the text between the first and the second colon (\<open>undefined\<close> when the
  cursor has no colon; no id is below \<open>undefined\<close>). Numbers compare as numbers, with
  \<open>NaN\<close> below and equal to nothing, and ids compare as strings.
\<close>

definition cursorFilter :: "string \<Rightarrow> chunkEmbedding \<Rightarrow> bool" where
  "cursorFilter cursor e =
     (case splitOn CHR '':'' cursor of
        [] \<Rightarrow> False
      | createdAtStr # rest \<Rightarrow>
          let createdAt = parseInt createdAtStr;
              idStr = (case rest of [] \<Rightarrow> None | i # others \<Rightarrow> Some i)
          in js_gt createdAt (Fin (real (emb_createdAt e)))
             \<or> (Fin (real (emb_createdAt e)) = createdAt
                 \<and> (case idStr of None \<Rightarrow> False | Some i \<Rightarrow> emb_id e < i)))"

text \<open>The query after \<open>if (args.cursor)\<close>; an empty cursor is falsy.\<close>

definition cursorQuery :: "database \<Rightarrow> searchChunksV2_args \<Rightarrow> chunkEmbedding list" where
  "cursorQuery db args =
     (case arg_cursor args of
        None \<Rightarrow> modelQuery db args
      | Some cursor \<Rightarrow>
          if cursor \<noteq> [] then filter (cursorFilter cursor) (modelQuery db args)
          else modelQuery db args)"

text \<open>\<open>embeddings\<close>, the scan window: \<open>embeddingsQuery.take(1000)\<close>.\<close>

definition scanWindow :: "database \<Rightarrow> searchChunksV2_args \<Rightarrow> chunkEmbedding list" where
  "scanWindow db args = take 1000 (cursorQuery db args)"

text \<open>\<open>`${lastResult.createdAt}:${lastResult._id}`\<close>\<close>

definition encodeCursor :: "nat \<Rightarrow> string \<Rightarrow> string" where
  "encodeCursor createdAt i = showNat createdAt @ CHR '':'' # i"

definition searchChunksV2 :: "database \<Rightarrow> searchChunksV2_args \<Rightarrow> error + page" where
  "searchChunksV2 db args =
     (let limit = orDefault (arg_limit args) (Fin 10);
          threshold = orDefault (arg_threshold args) (Fin (7 / 10));
          queryMagnitude = js_sqrt (squareLoop (arg_embedding args));
          embeddings = scanWindow db args
      in case mapE (\<lambda>emb.
                case cosineSimilarityWithMagnitude (arg_embedding args) (emb_embedding emb)
                       queryMagnitude (emb_magnitude emb) of
                  Inl e \<Rightarrow> Inl e
                | Inr sim \<Rightarrow> Inr (emb, sim)) embeddings of
           Inl e \<Rightarrow> Inl e
         | Inr scoredDocs \<Rightarrow>
             let ranked = rankScored scoredDocs threshold limit;
                 chunkDocs = map (\<lambda>r. getChunk db (emb_chunkId (fst r))) ranked;
                 documentIds = uniq (map chunk_documentId (List.map_filter id chunkDocs));
                 response =
                   map (\<lambda>(r, c). \<lparr>r_chunk = c, r_similarity = snd r,
                                    r_document = (case c of None \<Rightarrow> None
                                                  | Some ch \<Rightarrow> docMap db documentIds (chunk_documentId ch)),
                                    r_embeddingId = emb_id (fst r)\<rparr>)
                     (zip ranked chunkDocs);
                 cursorOut =
                   (if embeddings = [] then None
                    else Some (encodeCursor (emb_createdAt (last embeddings))
                                 (emb_id (last embeddings))))
             in Inr \<lparr>results = response, nextCursor = cursorOut,
                      hasMore = (length embeddings = 1000)\<rparr>)"

text \<open>
  The order the cursor filter compares rows in: row \<open>a\<close> is strictly before row \<open>b\<close>
  when the filter built from the cursor of \<open>b\<close> keeps \<open>a\<close>.
\<close>

definition rowBefore :: "chunkEmbedding \<Rightarrow> chunkEmbedding \<Rightarrow> bool" where
  "rowBefore a b =
     (emb_createdAt a < emb_createdAt b
      \<or> (emb_createdAt a = emb_createdAt b \<and> emb_id a < emb_id b))"

text \<open>
  A pagination session, as a caller of \<open>searchChunksV2\<close> runs it: each further call
  passes the \<open>nextCursor\<close> of the page before, and the session ends with the first page
  whose \<open>hasMore\<close> is false, or with the error a call raises. The result lists the scan
  windows of the calls, in order. \<open>fuel\<close> bounds the number of calls.
\<close>

datatype session = OutOfFuel | Failed error | Done "chunkEmbedding list list"

fun runSession :: "nat \<Rightarrow> database \<Rightarrow> searchChunksV2_args \<Rightarrow> session" where
  "runSession 0 db args = OutOfFuel"
| "runSession (Suc fuel) db args =
     (case searchChunksV2 db args of
        Inl e \<Rightarrow> Failed e
      | Inr p \<Rightarrow>
          if hasMore p then
            (case runSession fuel db (args\<lparr>arg_cursor := nextCursor p\<rparr>) of
               Done windows \<Rightarrow> Done (scanWindow db args # windows)
             | other \<Rightarrow> other)
          else Done [scanWindow db args])"

section \<open>Example data\<close>

definition example_query :: "number list" where
  "example_query = [Fin 1, Fin 0]"

definition example_candidates :: "candidate list" where
  "example_candidates =
     [\<lparr>cand_id = ''a'', cand_embedding = [Fin 1, Fin 0], cand_magnitude = None\<rparr>,
      \<lparr>cand_id = ''b'', cand_embedding = [Fin 0, Fin 1], cand_magnitude = None\<rparr>,
      \<lparr>cand_id = ''c'', cand_embedding = [Fin 2, Fin 0], cand_magnitude = Some (Fin 2)\<rparr>,
      \<lparr>cand_id = ''d'', cand_embedding = [Fin (- 1), Fin 0], cand_magnitude = None\<rparr>,
      \<lparr>cand_id = ''e'', cand_embedding = [Fin 3, Fin 0], cand_magnitude = Some (Fin 3)\<rparr>]"

definition example_db :: database where
  "example_db =
     \<lparr>documents = [\<lparr>doc_id = ''d1'', doc_title = ''doc''\<rparr>],
      chunks = [\<lparr>chunk_id = ''c1'', chunk_documentId = ''d1'', chunk_content = ''text'',
                 chunk_embedding = Some [Fin 1, Fin 0], chunk_magnitude = Some (Fin 1)\<rparr>],
      chunkEmbeddings = [\<lparr>emb_id = ''e1'', emb_chunkId = ''c1'', emb_embedding = [Fin 1, Fin 0],
                          emb_magnitude = Fin 1, emb_model = ''voyage'', emb_createdAt = 5\<rparr>],
      vectorMemories = [\<lparr>mem_id = ''m1'', mem_memoryType = Semantic, mem_content = ''note'',
                         mem_embedding = [Fin 1, Fin 0], mem_magnitude = Fin 1,
                         mem_agentId = None\<rparr>,
                        \<lparr>mem_id = ''m2'', mem_memoryType = Semantic, mem_content = ''memo'',
                         mem_embedding = [Fin 1, Fin 0], mem_magnitude = Fin 2,
                         mem_agentId = None\<rparr>]\<rparr>"

definition example_args :: searchChunksV2_args where
  "example_args =
     \<lparr>arg_embedding = [Fin 1, Fin 0], arg_limit = None, arg_threshold = None,
      arg_cursor = None, arg_model = None\<rparr>"

definition example_vs_args :: vectorSearch_args where
  "example_vs_args =
     \<lparr>vs_embedding = [Fin 1, Fin 0], vs_memoryType = None, vs_limit = None,
      vs_threshold = None, vs_agentId = None\<rparr>"

definition example_sc_args :: searchChunks_args where
  "example_sc_args = \<lparr>sc_embedding = [Fin 1, Fin 0], sc_limit = None, sc_threshold = None\<rparr>"

definition example_page :: page where
  "example_page =
     \<lparr>results =
        [\<lparr>r_chunk = Some \<lparr>chunk_id = ''c1'', chunk_documentId = ''d1'', chunk_content = ''text'',
                           chunk_embedding = Some [Fin 1, Fin 0], chunk_magnitude = Some (Fin 1)\<rparr>,
          r_similarity = Fin 1,
          r_document = Some \<lparr>doc_id = ''d1'', doc_title = ''doc''\<rparr>,
          r_embeddingId = ''e1''\<rparr>],
      nextCursor = Some ''5:e1'', hasMore = False\<rparr>"

text \<open>Three rows in creation order, two of them written in the same millisecond.\<close>

definition example_rows :: "chunkEmbedding list" where
  "example_rows =
     [\<lparr>emb_id = ''e1'', emb_chunkId = ''c1'', emb_embedding = [Fin 1, Fin 0],
       emb_magnitude = Fin 1, emb_model = ''voyage'', emb_createdAt = 5\<rparr>,
      \<lparr>emb_id = ''e2'', emb_chunkId = ''c1'', emb_embedding = [Fin 0, Fin 1],
       emb_magnitude = Fin 1, emb_model = ''voyage'', emb_createdAt = 5\<rparr>,
      \<lparr>emb_id = ''e3'', emb_chunkId = ''c1'', emb_embedding = [Fin 1, Fin 0],
       emb_magnitude = Fin 1, emb_model = ''voyage'', emb_createdAt = 7\<rparr>]"

text \<open>
  A table of 1001 rows in creation order: row \<open>n\<close> was written at time \<open>n\<close>, for
  \<open>n\<close> from 1 to 1001.
\<close>

definition pool_row :: "nat \<Rightarrow> chunkEmbedding" where
  "pool_row n =
     \<lparr>emb_id = showNat n, emb_chunkId = ''c1'', emb_embedding = [Fin 1, Fin 0],
      emb_magnitude = Fin 1, emb_model = ''voyage'', emb_createdAt = n\<rparr>"

definition big_db :: database where
  "big_db = example_db\<lparr>chunkEmbeddings := map pool_row [1..<1002]\<rparr>"

section \<open>Properties of the vector library\<close>

lemma squareLoop_zeros: "foldl (\<lambda>s x. js_add s (js_mul x x)) (Fin 0) (replicate n (Fin 0)) = Fin 0"
  by (induction n) simp_all

lemma calculateMagnitude_zeros: "calculateMagnitude (replicate n (Fin 0)) = Fin 0"
  by (simp add: calculateMagnitude_def squareLoop_def squareLoop_zeros)

text \<open>
  C2. For vectors \<open>a\<close> and \<open>b\<close> of equal length, the cached variant called with the
  magnitudes that \<open>calculateMagnitude\<close> computes returns the value \<open>cosineSimilarity\<close>
  returns, also when one of the magnitudes is zero (and both raise the same error when
  the lengths differ).
\<close>

theorem magnitude_cache_equivalence:
  "cosineSimilarityWithMagnitude a b (calculateMagnitude a) (calculateMagnitude b)
     = cosineSimilarity a b"
  by (simp add: cosineSimilarityWithMagnitude_def cosineSimilarity_def calculateMagnitude_def)

text \<open>
  C8. When \<open>a\<close> and \<open>b\<close> have equal length and the magnitude of \<open>a\<close> or of \<open>b\<close> is
  \<open>0\<close>, \<open>cosineSimilarity\<close> returns the number \<open>0\<close>: it raises nothing and the result
  is not \<open>NaN\<close>. The all-zero vector is such a vector, on either side.
\<close>

theorem cosineSimilarity_zero_magnitude:
  "(length a = length b \<and> (calculateMagnitude a = Fin 0 \<or> calculateMagnitude b = Fin 0)
      \<longrightarrow> cosineSimilarity a b = Inr (Fin 0))
   \<and> cosineSimilarity (replicate (length b) (Fin 0)) b = Inr (Fin 0)
   \<and> cosineSimilarity b (replicate (length b) (Fin 0)) = Inr (Fin 0)"
  using calculateMagnitude_zeros [of "length b"]
  by (auto simp add: cosineSimilarity_def calculateMagnitude_def Let_def)

theorem cosineSimilarity_zero_magnitude_witness:
  "length [Fin 0, Fin 0] = length [Fin 3, NaN]
   \<and> calculateMagnitude [Fin 0, Fin 0] = Fin 0
   \<and> cosineSimilarity [Fin 0, Fin 0] [Fin 3, NaN] = Inr (Fin 0)"
  using cosineSimilarity_zero_magnitude [of "[Fin 0, Fin 0]" "[Fin 3, NaN]"]
  by (simp add: calculateMagnitude_def squareLoop_def)

text \<open>
  C9. When the lengths differ, \<open>cosineSimilarity\<close>, \<open>dotProduct\<close> and
  \<open>euclideanDistance\<close> each fail with the dimension-mismatch error that reports both
  lengths; none computes over the shorter length.
\<close>

theorem dimension_mismatch_fails:
  "length a \<noteq> length b \<Longrightarrow>
     cosineSimilarity a b = Inl (DimensionMismatch (length a) (length b))
     \<and> dotProduct a b = Inl (DimensionMismatch (length a) (length b))
     \<and> euclideanDistance a b = Inl (DimensionMismatch (length a) (length b))"
  by (simp add: cosineSimilarity_def dotProduct_def euclideanDistance_def)

theorem dimension_mismatch_fails_witness:
  "length [Fin 1, Fin 2] \<noteq> length [Fin 1, Fin 2, Fin 3]
   \<and> cosineSimilarity [Fin 1, Fin 2] [Fin 1, Fin 2, Fin 3] = Inl (DimensionMismatch 2 3)
   \<and> dotProduct [Fin 1, Fin 2] [Fin 1, Fin 2, Fin 3] = Inl (DimensionMismatch 2 3)
   \<and> euclideanDistance [Fin 1, Fin 2] [Fin 1, Fin 2, Fin 3] = Inl (DimensionMismatch 2 3)"
  using dimension_mismatch_fails [of "[Fin 1, Fin 2]" "[Fin 1, Fin 2, Fin 3]"]
  by simp

section \<open>Properties of sort, slice and map\<close>

lemma truncInt_of_int: "truncInt (of_int i) = i"
  by (simp add: truncInt_def)

lemma truncInt_m1: "truncInt (- 1) = - 1"
  using truncInt_of_int [of "- 1"] by simp

lemma js_sub_pos: "js_gt (js_sub b a) (Fin 0) = js_gt b a"
  by (cases a; cases b) (simp_all add: js_sub_def)

lemma js_ge_iff: "a \<noteq> NaN \<Longrightarrow> b \<noteq> NaN \<Longrightarrow> js_ge a b = (\<not> js_gt b a)"
  by (cases a; cases b) auto

lemma js_ge_trans: "js_ge a b \<Longrightarrow> js_ge b c \<Longrightarrow> js_ge a c"
  by (cases a; cases b; cases c) auto

lemma js_ge_not_NaN: "js_ge a b \<Longrightarrow> a \<noteq> NaN \<and> b \<noteq> NaN"
  by (cases a; cases b) auto

lemma js_gt_neq: "js_gt a b \<Longrightarrow> a \<noteq> b"
  by (cases a; cases b) auto

lemma js_gt_ge: "js_gt a b \<Longrightarrow> js_ge a b"
  by (cases a; cases b) auto

lemma mset_insertSorted: "mset (insertSorted cmp x ys) = add_mset x (mset ys)"
  by (induction ys) simp_all

lemma mset_sortWith: "mset (sortWith cmp xs) = mset xs"
  by (induction xs) (simp_all add: sortWith_def mset_insertSorted)

lemma set_insertSorted: "set (insertSorted cmp x ys) = insert x (set ys)"
  by (induction ys) auto

lemma set_sortWith: "set (sortWith cmp xs) = set xs"
  by (induction xs) (simp_all add: sortWith_def set_insertSorted)

lemma filter_insertSorted:
  "filter (\<lambda>y. similarity y = s) (insertSorted (\<lambda>a b. js_sub (similarity b) (similarity a)) x ys)
     = (if similarity x = s then x # filter (\<lambda>y. similarity y = s) ys
        else filter (\<lambda>y. similarity y = s) ys)"
  by (induction ys) (auto simp add: js_sub_pos dest: js_gt_neq)

lemma filter_sortWith:
  "filter (\<lambda>y. similarity y = s) (sortWith (\<lambda>a b. js_sub (similarity b) (similarity a)) xs)
     = filter (\<lambda>y. similarity y = s) xs"
  by (induction xs) (simp_all add: sortWith_def filter_insertSorted)

lemma sorted_insertSorted:
  assumes "sorted_wrt (\<lambda>x y. js_ge (similarity x) (similarity y)) ys"
    and "similarity x \<noteq> NaN" and "\<forall>y\<in>set ys. similarity y \<noteq> NaN"
  shows "sorted_wrt (\<lambda>x y. js_ge (similarity x) (similarity y))
           (insertSorted (\<lambda>a b. js_sub (similarity b) (similarity a)) x ys)"
  using assms
proof (induction ys)
  case Nil
  then show ?case by simp
next
  case (Cons y ys)
  show ?case
  proof (cases "js_gt (similarity y) (similarity x)")
    case True
    have "\<forall>z\<in>set (insertSorted (\<lambda>a b. js_sub (similarity b) (similarity a)) x ys).
            js_ge (similarity y) (similarity z)"
      using Cons.prems True by (auto simp add: set_insertSorted dest: js_gt_ge)
    then show ?thesis using Cons True by (simp add: js_sub_pos)
  next
    case False
    then have xy: "js_ge (similarity x) (similarity y)"
      using Cons.prems by (simp add: js_ge_iff)
    then have "\<forall>z\<in>set ys. js_ge (similarity x) (similarity z)"
      using Cons.prems by (auto intro: js_ge_trans)
    then show ?thesis using Cons.prems False xy by (simp add: js_sub_pos)
  qed
qed

lemma sorted_sortWith:
  "\<forall>y\<in>set xs. similarity y \<noteq> NaN \<Longrightarrow>
     sorted_wrt (\<lambda>x y. js_ge (similarity x) (similarity y))
       (sortWith (\<lambda>a b. js_sub (similarity b) (similarity a)) xs)"
proof (induction xs)
  case Nil
  then show ?case by (simp add: sortWith_def)
next
  case (Cons x xs)
  have "sorted_wrt (\<lambda>x y. js_ge (similarity x) (similarity y))
          (insertSorted (\<lambda>a b. js_sub (similarity b) (similarity a)) x
             (sortWith (\<lambda>a b. js_sub (similarity b) (similarity a)) xs))"
    using Cons by (intro sorted_insertSorted) (simp_all add: set_sortWith)
  then show ?case by (simp add: sortWith_def)
qed

lemma mapE_Inr_iff: "mapE f xs = Inr ys \<longleftrightarrow> list_all2 (\<lambda>x y. f x = Inr y) xs ys"
proof (induction xs arbitrary: ys)
  case Nil
  then show ?case by auto
next
  case (Cons x xs)
  show ?case
    by (cases ys) (auto simp add: Cons.IH [symmetric] split: sum.splits)
qed

lemma mapE_total:
  "\<forall>x\<in>set xs. \<exists>y. f x = Inr y \<Longrightarrow> \<exists>ys. mapE f xs = Inr ys"
  by (induction xs) (auto split: sum.splits)

lemma slice0_nonneg:
  assumes "js_ge k (Fin 0)"
  shows "slice0 xs k = take (length (slice0 xs k)) xs
         \<and> js_ge k (Fin (real (length (slice0 xs k))))
         \<and> (length (slice0 xs k) < length xs \<longrightarrow> js_gt (Fin (real (length (slice0 xs k)) + 1)) k)"
proof (cases k)
  case (Fin x)
  then have x: "0 \<le> x" using assms by simp
  then have t: "truncInt x = \<lfloor>x\<rfloor>" "0 \<le> \<lfloor>x\<rfloor>" by (simp_all add: truncInt_def)
  have s: "slice0 xs k = take (nat \<lfloor>x\<rfloor>) xs" using Fin t by simp
  have le: "real (min (length xs) (nat \<lfloor>x\<rfloor>)) \<le> x"
    using t(2) by linarith
  have lt: "length xs > nat \<lfloor>x\<rfloor> \<Longrightarrow> x < real (nat \<lfloor>x\<rfloor>) + 1"
    using t(2) by linarith
  show ?thesis unfolding s using le lt Fin by (auto simp add: min_def)
qed (use assms in simp_all)

lemma candidateSimilarity_total:
  "length (cand_embedding v) = length query \<Longrightarrow> \<exists>s. candidateSimilarity query v = Inr s"
  by (auto simp add: candidateSimilarity_def cosineSimilarity_def
      cosineSimilarityWithMagnitude_def Let_def split: option.splits)


section \<open>topKSimilar\<close>

text \<open>
  C1, amended. When every candidate's embedding has the length of the query and
  \<open>k >= 0\<close>, \<open>topKSimilar\<close> returns a list \<open>result\<close> such that, for the list \<open>sims\<close> of
  the candidates' ids and similarities in candidate order and a list \<open>full\<close>:
  \<open>full\<close> holds exactly the entries of \<open>sims\<close> whose similarity is \<open>>=\<close> the threshold
  (equality included), each as often as it occurs; \<open>full\<close> is in descending order of
  similarity; entries of equal similarity stand in \<open>full\<close> in candidate order; and
  \<open>result\<close> is the longest prefix of \<open>full\<close> with at most \<open>k\<close> entries.
\<close>

theorem topKSimilar_ranked:
  assumes dims: "\<forall>v\<in>set vectors. length (cand_embedding v) = length query"
    and k: "js_ge k (Fin 0)"
  shows "\<exists>sims full result.
     list_all2 (\<lambda>v it. item_id it = cand_id v \<and> candidateSimilarity query v = Inr (similarity it))
        vectors sims
     \<and> topKSimilar query vectors k threshold = Inr result
     \<and> mset full = mset (filter (\<lambda>it. js_ge (similarity it) (case threshold of None \<Rightarrow> Fin 0 | Some t \<Rightarrow> t)) sims)
     \<and> sorted_wrt (\<lambda>x y. js_ge (similarity x) (similarity y)) full
     \<and> (\<forall>s. filter (\<lambda>it. similarity it = s) full
            = filter (\<lambda>it. similarity it = s)
                (filter (\<lambda>it. js_ge (similarity it) (case threshold of None \<Rightarrow> Fin 0 | Some t \<Rightarrow> t)) sims))
     \<and> result = take (length result) full
     \<and> js_ge k (Fin (real (length result)))
     \<and> (length result < length full \<longrightarrow> js_gt (Fin (real (length result) + 1)) k)"
proof -
  let ?thr = "case threshold of None \<Rightarrow> Fin 0 | Some t \<Rightarrow> t"
  let ?cmp = "\<lambda>a b. js_sub (similarity b) (similarity a)"
  have "\<forall>v\<in>set vectors. \<exists>it. scoreCandidate query v = Inr it"
    using dims candidateSimilarity_total [of _ query]
    by (fastforce simp add: scoreCandidate_def)
  then obtain sims where sims: "mapE (scoreCandidate query) vectors = Inr sims"
    using mapE_total by blast
  define pass where "pass = filter (\<lambda>it. js_ge (similarity it) ?thr) sims"
  define full where "full = sortWith ?cmp pass"
  define result where "result = slice0 full k"
  have rel: "list_all2 (\<lambda>v it. scoreCandidate query v = Inr it) vectors sims"
    using sims by (simp add: mapE_Inr_iff)
  have "list_all2 (\<lambda>v it. item_id it = cand_id v \<and> candidateSimilarity query v = Inr (similarity it))
          vectors sims"
    by (rule list_all2_mono [OF rel]) (auto simp add: scoreCandidate_def split: sum.splits)
  moreover have "topKSimilar query vectors k threshold = Inr result"
    by (simp add: topKSimilar_def sims result_def full_def pass_def)
  moreover have "mset full = mset pass"
    by (simp add: full_def mset_sortWith)
  moreover have "\<forall>y\<in>set pass. similarity y \<noteq> NaN"
    by (auto simp add: pass_def dest: js_ge_not_NaN)
  then have "sorted_wrt (\<lambda>x y. js_ge (similarity x) (similarity y)) full"
    unfolding full_def by (rule sorted_sortWith)
  moreover have "\<forall>s. filter (\<lambda>it. similarity it = s) full = filter (\<lambda>it. similarity it = s) pass"
    by (simp add: full_def filter_sortWith)
  moreover have "result = take (length result) full
     \<and> js_ge k (Fin (real (length result)))
     \<and> (length result < length full \<longrightarrow> js_gt (Fin (real (length result) + 1)) k)"
    unfolding result_def using slice0_nonneg [OF k] by blast
  ultimately show ?thesis unfolding pass_def by blast
qed

theorem topKSimilar_ranked_witness:
  "topKSimilar example_query example_candidates (Fin 2) (Some (Fin 1))
   = Inr [\<lparr>item_id = ''a'', similarity = Fin 1\<rparr>, \<lparr>item_id = ''c'', similarity = Fin 1\<rparr>]
   \<and> (\<exists>sims full result.
     list_all2 (\<lambda>v it. item_id it = cand_id v \<and> candidateSimilarity example_query v = Inr (similarity it))
        example_candidates sims
     \<and> topKSimilar example_query example_candidates (Fin 2) (Some (Fin 1)) = Inr result
     \<and> mset full = mset (filter (\<lambda>it. js_ge (similarity it) (Fin 1)) sims)
     \<and> sorted_wrt (\<lambda>x y. js_ge (similarity x) (similarity y)) full
     \<and> (\<forall>s. filter (\<lambda>it. similarity it = s) full
            = filter (\<lambda>it. similarity it = s)
                (filter (\<lambda>it. js_ge (similarity it) (Fin 1)) sims))
     \<and> result = take (length result) full
     \<and> js_ge (Fin 2) (Fin (real (length result)))
     \<and> (length result < length full \<longrightarrow> js_gt (Fin (real (length result) + 1)) (Fin 2)))"
proof -
  have dims: "\<forall>v\<in>set example_candidates. length (cand_embedding v) = length example_query"
    by (simp add: example_candidates_def example_query_def)
  have k: "js_ge (Fin 2) (Fin 0)"
    by simp
  have run: "topKSimilar example_query example_candidates (Fin 2) (Some (Fin 1))
      = Inr [\<lparr>item_id = ''a'', similarity = Fin 1\<rparr>, \<lparr>item_id = ''c'', similarity = Fin 1\<rparr>]"
    by (simp add: example_candidates_def example_query_def
        topKSimilar_def scoreCandidate_def candidateSimilarity_def cosineSimilarity_def
        cosineSimilarityWithMagnitude_def calculateMagnitude_def truthy_def dotLoop_def
        squareLoop_def sortWith_def js_sub_def truncInt_def)
  have "\<exists>sims full result.
     list_all2 (\<lambda>v it. item_id it = cand_id v \<and> candidateSimilarity example_query v = Inr (similarity it))
        example_candidates sims
     \<and> topKSimilar example_query example_candidates (Fin 2) (Some (Fin 1)) = Inr result
     \<and> mset full = mset (filter (\<lambda>it. js_ge (similarity it) (Fin 1)) sims)
     \<and> sorted_wrt (\<lambda>x y. js_ge (similarity x) (similarity y)) full
     \<and> (\<forall>s. filter (\<lambda>it. similarity it = s) full
            = filter (\<lambda>it. similarity it = s)
                (filter (\<lambda>it. js_ge (similarity it) (Fin 1)) sims))
     \<and> result = take (length result) full
     \<and> js_ge (Fin 2) (Fin (real (length result)))
     \<and> (length result < length full \<longrightarrow> js_gt (Fin (real (length result) + 1)) (Fin 2))"
    using topKSimilar_ranked [OF dims k, of "Some (Fin 1)"]
    unfolding option.case .
  with run show ?thesis
    by (rule conjI)
qed

text \<open>
  C1 as stated fails at two inputs. With \<open>k = -1\<close> and two candidates of similarity
  \<open>1\<close>, the call returns one entry, which is more than \<open>k\<close> entries. With a query of
  length 1 and a candidate whose embedding has length 2, the call raises the
  dimension-mismatch error and returns nothing.
\<close>

theorem topKSimilar_counterexample:
  "topKSimilar [Fin 1]
     [\<lparr>cand_id = ''a'', cand_embedding = [Fin 1], cand_magnitude = None\<rparr>,
      \<lparr>cand_id = ''b'', cand_embedding = [Fin 1], cand_magnitude = None\<rparr>]
     (Fin (- 1)) None
   = Inr [\<lparr>item_id = ''a'', similarity = Fin 1\<rparr>]
   \<and> \<not> js_ge (Fin (- 1)) (Fin (real (length [\<lparr>item_id = ''a'', similarity = Fin 1\<rparr>])))
   \<and> topKSimilar [Fin 1]
       [\<lparr>cand_id = ''a'', cand_embedding = [Fin 1, Fin 0], cand_magnitude = None\<rparr>]
       (Fin 1) None
     = Inl (DimensionMismatch 1 2)"
  by (simp add: topKSimilar_def scoreCandidate_def candidateSimilarity_def cosineSimilarity_def
      dotLoop_def squareLoop_def sortWith_def js_sub_def truncInt_m1)

section \<open>Properties of the search handlers\<close>

lemma scanWindow_limit_threshold:
  "scanWindow db (args\<lparr>arg_limit := l, arg_threshold := t\<rparr>) = scanWindow db args"
  by (simp add: scanWindow_def cursorQuery_def modelQuery_def cong: option.case_cong if_cong)

lemma showNat_5: "showNat 5 = ''5''"
  by (simp add: showNat.simps digitChar_def)

lemma searchChunksV2_page:
  assumes "searchChunksV2 db args = Inr p"
  shows "hasMore p = (length (scanWindow db args) = 1000)"
    and "nextCursor p =
           (if scanWindow db args = [] then None
            else Some (encodeCursor (emb_createdAt (last (scanWindow db args)))
                         (emb_id (last (scanWindow db args)))))"
  using assms by (auto simp add: searchChunksV2_def Let_def split: sum.splits)

lemma example_window: "scanWindow example_db example_args = chunkEmbeddings example_db"
  by (simp add: scanWindow_def cursorQuery_def modelQuery_def truthyStr_def example_db_def example_args_def)

lemma example_run: "searchChunksV2 example_db example_args = Inr example_page"
  by (simp add: searchChunksV2_def example_window)
     (simp add: example_db_def example_args_def example_page_def orDefault_def
      cosineSimilarityWithMagnitude_def dotLoop_def squareLoop_def rankScored_def sortWith_def
      truncInt_def getChunk_def getDocument_def docMap_def uniq_def List.map_filter_def
      encodeCursor_def showNat_5 js_sub_def)


lemma set_slice0: "set (slice0 xs k) \<subseteq> set xs"
  by (cases k) (auto dest: in_set_takeD)

lemma set_rankScored:
  "set (rankScored xs threshold limit) \<subseteq> {r \<in> set xs. js_ge (snd r) threshold}"
  using set_slice0 [of "sortWith (\<lambda>a b. js_sub (snd b) (snd a)) (filter (\<lambda>result. js_ge (snd result) threshold) xs)" limit]
  by (auto simp add: rankScored_def set_sortWith)

lemma nonfinite_add: "\<not> js_isFinite a \<or> \<not> js_isFinite b \<Longrightarrow> \<not> js_isFinite (js_add a b)"
  by (cases a; cases b) (auto simp add: js_isFinite_def)

lemma nonfinite_mul: "\<not> js_isFinite a \<Longrightarrow> \<not> js_isFinite (js_mul a b)"
  by (cases a; cases b) (auto simp add: js_isFinite_def signed_inf_def)

lemma nonfinite_div: "\<not> js_isFinite a \<Longrightarrow> \<not> js_isFinite b \<Longrightarrow> js_div a b = NaN"
  by (cases a; cases b) (auto simp add: js_isFinite_def)

lemma dot_stays_nonfinite:
  "\<not> js_isFinite acc \<Longrightarrow>
     \<not> js_isFinite (foldl (\<lambda>s (x, y). js_add s (js_mul x y)) acc ps)"
  by (induction ps arbitrary: acc) (auto simp add: nonfinite_add)

lemma dot_nonfinite:
  "\<exists>p\<in>set ps. \<not> js_isFinite (fst p) \<Longrightarrow>
     \<not> js_isFinite (foldl (\<lambda>s (x, y). js_add s (js_mul x y)) acc ps)"
proof (induction ps arbitrary: acc)
  case Nil
  then show ?case by simp
next
  case (Cons p ps)
  show ?case
  proof (cases "js_isFinite (fst p)")
    case True
    then show ?thesis using Cons by simp
  next
    case False
    then have "\<not> js_isFinite (js_add acc (js_mul (fst p) (snd p)))"
      by (simp add: nonfinite_add nonfinite_mul)
    then show ?thesis
      using dot_stays_nonfinite [of "js_add acc (js_mul (fst p) (snd p))" ps]
      by (cases p) simp
  qed
qed

lemma dotLoop_nonfinite:
  assumes "x \<in> set a" and "\<not> js_isFinite x" and "length a = length b"
  shows "\<not> js_isFinite (dotLoop a b)"
proof -
  obtain y where "(x, y) \<in> set (zip a b)"
    using assms(1,3) in_set_impl_in_set_zip1 by metis
  then have "\<exists>p\<in>set (zip a b). \<not> js_isFinite (fst p)"
    using assms(2) by force
  then show ?thesis
    unfolding dotLoop_def by (rule dot_nonfinite)
qed

lemma square_nonneg: "js_mul x x = NaN \<or> js_ge (js_mul x x) (Fin 0)"
  by (cases x) simp_all

lemma square_nonfinite: "\<not> js_isFinite x \<Longrightarrow> js_mul x x = NaN \<or> js_mul x x = PosInf"
  by (cases x) (simp_all add: js_isFinite_def)

lemma add_nonneg: 
  "a = NaN \<or> js_ge a (Fin 0) \<Longrightarrow> b = NaN \<or> js_ge b (Fin 0) \<Longrightarrow>
     js_add a b = NaN \<or> js_ge (js_add a b) (Fin 0)"
  by (cases a; cases b) auto

lemma add_inf_left:
  "a = NaN \<or> a = PosInf \<Longrightarrow> b = NaN \<or> js_ge b (Fin 0) \<Longrightarrow>
     js_add a b = NaN \<or> js_add a b = PosInf"
  by (cases a; cases b) auto

lemma add_inf_right:
  "a = NaN \<or> js_ge a (Fin 0) \<Longrightarrow> b = NaN \<or> b = PosInf \<Longrightarrow>
     js_add a b = NaN \<or> js_add a b = PosInf"
  by (cases a; cases b) auto

lemma squares_stay_inf:
  "acc = NaN \<or> acc = PosInf \<Longrightarrow>
     foldl (\<lambda>s x. js_add s (js_mul x x)) acc v = NaN
     \<or> foldl (\<lambda>s x. js_add s (js_mul x x)) acc v = PosInf"
proof (induction v arbitrary: acc)
  case Nil
  then show ?case by simp
next
  case (Cons x v)
  have "js_add acc (js_mul x x) = NaN \<or> js_add acc (js_mul x x) = PosInf"
    using Cons.prems square_nonneg [of x] by (rule add_inf_left)
  then show ?case using Cons.IH by simp
qed

lemma squares_nonfinite:
  "acc = NaN \<or> js_ge acc (Fin 0) \<Longrightarrow> \<exists>x\<in>set v. \<not> js_isFinite x \<Longrightarrow>
     foldl (\<lambda>s x. js_add s (js_mul x x)) acc v = NaN
     \<or> foldl (\<lambda>s x. js_add s (js_mul x x)) acc v = PosInf"
proof (induction v arbitrary: acc)
  case Nil
  then show ?case by simp
next
  case (Cons x v)
  show ?case
  proof (cases "js_isFinite x")
    case True
    have "js_add acc (js_mul x x) = NaN \<or> js_ge (js_add acc (js_mul x x)) (Fin 0)"
      using Cons.prems(1) square_nonneg [of x] by (rule add_nonneg)
    moreover have "\<exists>x\<in>set v. \<not> js_isFinite x"
      using Cons.prems(2) True by auto
    ultimately show ?thesis using Cons.IH by simp
  next
    case False
    have "js_add acc (js_mul x x) = NaN \<or> js_add acc (js_mul x x) = PosInf"
      using Cons.prems(1) square_nonfinite [OF False] by (rule add_inf_right)
    then show ?thesis
      using squares_stay_inf [of "js_add acc (js_mul x x)" v] by simp
  qed
qed

lemma magnitude_nonfinite:
  assumes "\<exists>x\<in>set q. \<not> js_isFinite x"
  shows "js_sqrt (squareLoop q) = NaN \<or> js_sqrt (squareLoop q) = PosInf"
proof -
  have "squareLoop q = NaN \<or> squareLoop q = PosInf"
    unfolding squareLoop_def using assms by (intro squares_nonfinite) simp_all
  then show ?thesis by auto
qed

lemma inf_times_nonzero:
  "a = NaN \<or> a = PosInf \<Longrightarrow> b \<noteq> Fin 0 \<Longrightarrow> \<not> js_isFinite (js_mul a b)"
  by (cases a; cases b) (auto simp add: js_isFinite_def signed_inf_def)

lemma invalid_query_similarity:
  assumes bad: "\<exists>x\<in>set q. \<not> js_isFinite x" and len: "length b = length q"
  shows "cosineSimilarityWithMagnitude q b (js_sqrt (squareLoop q)) m
           = Inr (if m = Fin 0 then Fin 0 else NaN)"
proof -
  have mag: "js_sqrt (squareLoop q) = NaN \<or> js_sqrt (squareLoop q) = PosInf"
    using bad by (rule magnitude_nonfinite)
  obtain x where x: "x \<in> set q" "\<not> js_isFinite x" using bad by blast
  have dot: "\<not> js_isFinite (dotLoop q b)"
    using x len by (intro dotLoop_nonfinite [of x]) simp_all
  show ?thesis
  proof (cases "m = Fin 0")
    case True
    then show ?thesis using len by (simp add: cosineSimilarityWithMagnitude_def)
  next
    case False
    have "\<not> js_isFinite (js_mul (js_sqrt (squareLoop q)) m)"
      using mag False by (rule inf_times_nonzero)
    then have "js_div (dotLoop q b) (js_mul (js_sqrt (squareLoop q)) m) = NaN"
      using dot by (intro nonfinite_div)
    moreover have "js_sqrt (squareLoop q) \<noteq> Fin 0" using mag by auto
    ultimately show ?thesis using len False by (simp add: cosineSimilarityWithMagnitude_def)
  qed
qed

lemma invalid_iff: "\<not> validateVector q None \<longleftrightarrow> (\<exists>x\<in>set q. \<not> js_isFinite x)"
  by (auto simp add: validateVector_def list_all_iff js_isNaN_def js_isFinite_def split: number.splits)

lemma list_all2_sources:
  "list_all2 P xs ys \<Longrightarrow> \<forall>y\<in>set ys. \<exists>x\<in>set xs. P x y"
  by (induction rule: list_all2_induct) auto

lemma invalid_scored:
  assumes bad: "\<exists>x\<in>set q. \<not> js_isFinite x"
    and dims: "\<forall>c\<in>set cs. length (emb c) = length q"
  shows "\<exists>scoredDocs.
      mapE (\<lambda>doc. case cosineSimilarityWithMagnitude q (emb doc) (js_sqrt (squareLoop q)) (mag doc) of
                    Inl e \<Rightarrow> Inl e | Inr sim \<Rightarrow> Inr (doc, sim)) cs = Inr scoredDocs
      \<and> (\<forall>r\<in>set scoredDocs. snd r = Fin 0 \<or> snd r = NaN)"
proof -
  let ?f = "\<lambda>doc. case cosineSimilarityWithMagnitude q (emb doc) (js_sqrt (squareLoop q)) (mag doc) of
                    Inl e \<Rightarrow> Inl e | Inr sim \<Rightarrow> Inr (doc, sim)"
  have each: "\<forall>c\<in>set cs. ?f c = Inr (c, if mag c = Fin 0 then Fin 0 else NaN)"
    using invalid_query_similarity [OF bad] dims by simp
  then obtain scoredDocs where s: "mapE ?f cs = Inr scoredDocs"
    using mapE_total [of cs ?f] by blast
  then have "list_all2 (\<lambda>x y. ?f x = Inr y) cs scoredDocs"
    by (simp add: mapE_Inr_iff)
  then have "\<forall>r\<in>set scoredDocs. \<exists>c\<in>set cs. ?f c = Inr r"
    by (rule list_all2_sources)
  then have src: "\<forall>r\<in>set scoredDocs. \<exists>c\<in>set cs. ?f c = Inr r" .
  have "\<forall>r\<in>set scoredDocs. snd r = Fin 0 \<or> snd r = NaN"
  proof
    fix r assume "r \<in> set scoredDocs"
    then obtain c where c: "c \<in> set cs" "?f c = Inr r" using src by blast
    then have "r = (c, if mag c = Fin 0 then Fin 0 else NaN)" using each by simp
    then show "snd r = Fin 0 \<or> snd r = NaN" by simp
  qed
  then show ?thesis using s by blast
qed

lemma ranked_invalid:
  assumes "\<forall>r\<in>set scoredDocs. snd r = Fin 0 \<or> snd r = NaN"
  shows "(\<forall>r\<in>set (rankScored scoredDocs threshold limit). snd r = Fin 0)
       \<and> (js_gt threshold (Fin 0) \<longrightarrow> rankScored scoredDocs threshold limit = [])"
proof -
  have sub: "\<forall>r\<in>set (rankScored scoredDocs threshold limit). r \<in> set scoredDocs \<and> js_ge (snd r) threshold"
    using set_rankScored [of scoredDocs threshold limit] by auto
  have a: "\<forall>r\<in>set (rankScored scoredDocs threshold limit). snd r = Fin 0"
    using sub assms by fastforce
  have "js_gt threshold (Fin 0) \<Longrightarrow> rankScored scoredDocs threshold limit = []"
  proof (rule ccontr)
    assume t: "js_gt threshold (Fin 0)" and "rankScored scoredDocs threshold limit \<noteq> []"
    then obtain r rs where "rankScored scoredDocs threshold limit = r # rs"
      by (cases "rankScored scoredDocs threshold limit") auto
    then have "r \<in> set (rankScored scoredDocs threshold limit)" by simp
    then have "js_ge (Fin 0) threshold" using sub a by fastforce
    then show False using t by (cases threshold) auto
  qed
  then show ?thesis using a by auto
qed


lemma length_slice0_ten: "length (slice0 xs (Fin 10)) \<le> 10"
  by (simp add: truncInt_def)

lemma length_rankScored_ten: "length (rankScored xs threshold (Fin 10)) \<le> 10"
  by (simp add: rankScored_def length_slice0_ten del: slice0.simps)

lemma rankScored_passes:
  "r \<in> set (rankScored xs threshold limit) \<Longrightarrow> js_ge (snd r) threshold"
  using set_rankScored [of xs threshold limit] by auto

lemma orDefault_zero_limit: "orDefault (Some (Fin 0)) (Fin 10) = Fin 10"
  by (simp add: orDefault_def truthy_def)

lemma orDefault_zero_threshold: "orDefault (Some (Fin 0)) (Fin (7 / 10)) = Fin (7 / 10)"
  by (simp add: orDefault_def truthy_def)

lemma vectorSearch_bounds:
  assumes "vectorSearch db va = Inr rs"
  shows "\<forall>r\<in>set rs. js_ge (vr_similarity r) (orDefault (vs_threshold va) (Fin (7 / 10)))"
    and "orDefault (vs_limit va) (Fin 10) = Fin 10 \<Longrightarrow> length rs \<le> 10"
proof -
  obtain scored where rs: "rs = map (\<lambda>r. \<lparr>vr_document = fst r, vr_similarity = snd r,
                              vr_documentId = mem_id (fst r)\<rparr>)
        (rankScored scored (orDefault (vs_threshold va) (Fin (7 / 10))) (orDefault (vs_limit va) (Fin 10)))"
    using assms by (auto simp add: vectorSearch_def Let_def split: sum.splits)
  show "\<forall>r\<in>set rs. js_ge (vr_similarity r) (orDefault (vs_threshold va) (Fin (7 / 10)))"
    unfolding rs using rankScored_passes by fastforce
  show "orDefault (vs_limit va) (Fin 10) = Fin 10 \<Longrightarrow> length rs \<le> 10"
    unfolding rs by (simp add: length_rankScored_ten)
qed

lemma searchChunks_bounds:
  assumes "searchChunks db ca = Inr cs"
  shows "\<forall>r\<in>set cs. js_ge (cr_similarity r) (orDefault (sc_threshold ca) (Fin (7 / 10)))"
    and "orDefault (sc_limit ca) (Fin 10) = Fin 10 \<Longrightarrow> length cs \<le> 10"
proof -
  obtain scored f where cs: "cs = map (\<lambda>r. \<lparr>cr_chunk = fst r, cr_similarity = snd r, cr_document = f r\<rparr>)
        (rankScored scored (orDefault (sc_threshold ca) (Fin (7 / 10))) (orDefault (sc_limit ca) (Fin 10)))"
    using assms by (auto simp add: searchChunks_def Let_def split: sum.splits)
  show "\<forall>r\<in>set cs. js_ge (cr_similarity r) (orDefault (sc_threshold ca) (Fin (7 / 10)))"
    unfolding cs using rankScored_passes by fastforce
  show "orDefault (sc_limit ca) (Fin 10) = Fin 10 \<Longrightarrow> length cs \<le> 10"
    unfolding cs by (simp add: length_rankScored_ten)
qed

lemma searchChunksV2_bounds:
  assumes "searchChunksV2 db a = Inr p"
  shows "\<forall>r\<in>set (results p). js_ge (r_similarity r) (orDefault (arg_threshold a) (Fin (7 / 10)))"
    and "orDefault (arg_limit a) (Fin 10) = Fin 10 \<Longrightarrow> length (results p) \<le> 10"
proof -
  let ?T = "orDefault (arg_threshold a) (Fin (7 / 10))"
  let ?L = "orDefault (arg_limit a) (Fin 10)"
  let ?f = "\<lambda>emb. case cosineSimilarityWithMagnitude (arg_embedding a) (emb_embedding emb)
                       (js_sqrt (squareLoop (arg_embedding a))) (emb_magnitude emb) of
                  Inl e \<Rightarrow> Inl e
                | Inr sim \<Rightarrow> Inr (emb, sim)"
  obtain scored where m: "mapE ?f (scanWindow db a) = Inr scored"
    using assms by (cases "mapE ?f (scanWindow db a)") (auto simp add: searchChunksV2_def Let_def)
  have rs: "results p =
      map (\<lambda>(r, c). \<lparr>r_chunk = c, r_similarity = snd r,
                      r_document = (case c of None \<Rightarrow> None
                                    | Some ch \<Rightarrow>
                                        docMap db
                                          (uniq (map chunk_documentId
                                             (List.map_filter id
                                                (map (\<lambda>r. getChunk db (emb_chunkId (fst r)))
                                                   (rankScored scored ?T ?L)))))
                                          (chunk_documentId ch)),
                      r_embeddingId = emb_id (fst r)\<rparr>)
        (zip (rankScored scored ?T ?L)
             (map (\<lambda>r. getChunk db (emb_chunkId (fst r))) (rankScored scored ?T ?L)))"
    using assms m by (auto simp add: searchChunksV2_def Let_def)
  show "\<forall>r\<in>set (results p). js_ge (r_similarity r) ?T"
  proof
    fix r assume "r \<in> set (results p)"
    then obtain x c where "(x, c) \<in> set (zip (rankScored scored ?T ?L)
             (map (\<lambda>r. getChunk db (emb_chunkId (fst r))) (rankScored scored ?T ?L)))"
        and r: "r_similarity r = snd x"
      unfolding rs by auto
    then have "x \<in> set (rankScored scored ?T ?L)"
      by (auto dest: set_zip_leftD)
    then show "js_ge (r_similarity r) ?T"
      using rankScored_passes r by simp
  qed
  have "length (results p) = length (rankScored scored ?T ?L)"
    unfolding rs by simp
  then show "?L = Fin 10 \<Longrightarrow> length (results p) \<le> 10"
    using length_rankScored_ten [of scored ?T] by simp
qed

lemma vectorSearch_zero:
  "vectorSearch db (va\<lparr>vs_limit := Some (Fin 0)\<rparr>) = vectorSearch db (va\<lparr>vs_limit := None\<rparr>)"
  "vectorSearch db (va\<lparr>vs_limit := Some (Fin 0)\<rparr>) = vectorSearch db (va\<lparr>vs_limit := Some (Fin 10)\<rparr>)"
  "vectorSearch db (va\<lparr>vs_threshold := Some (Fin 0)\<rparr>) = vectorSearch db (va\<lparr>vs_threshold := None\<rparr>)"
  "vectorSearch db (va\<lparr>vs_threshold := Some (Fin 0)\<rparr>)
     = vectorSearch db (va\<lparr>vs_threshold := Some (Fin (7 / 10))\<rparr>)"
  by (simp_all add: vectorSearch_def vectorSearch_candidates_def orDefault_def truthy_def
      cong: option.case_cong sum.case_cong prod.case_cong if_cong)

lemma searchChunks_zero:
  "searchChunks db (ca\<lparr>sc_limit := Some (Fin 0)\<rparr>) = searchChunks db (ca\<lparr>sc_limit := None\<rparr>)"
  "searchChunks db (ca\<lparr>sc_limit := Some (Fin 0)\<rparr>) = searchChunks db (ca\<lparr>sc_limit := Some (Fin 10)\<rparr>)"
  "searchChunks db (ca\<lparr>sc_threshold := Some (Fin 0)\<rparr>) = searchChunks db (ca\<lparr>sc_threshold := None\<rparr>)"
  "searchChunks db (ca\<lparr>sc_threshold := Some (Fin 0)\<rparr>)
     = searchChunks db (ca\<lparr>sc_threshold := Some (Fin (7 / 10))\<rparr>)"
  by (simp_all add: searchChunks_def orDefault_def truthy_def
      cong: option.case_cong sum.case_cong prod.case_cong if_cong)

lemma searchChunksV2_zero:
  "searchChunksV2 db (a\<lparr>arg_limit := Some (Fin 0)\<rparr>) = searchChunksV2 db (a\<lparr>arg_limit := None\<rparr>)"
  "searchChunksV2 db (a\<lparr>arg_limit := Some (Fin 0)\<rparr>) = searchChunksV2 db (a\<lparr>arg_limit := Some (Fin 10)\<rparr>)"
  "searchChunksV2 db (a\<lparr>arg_threshold := Some (Fin 0)\<rparr>) = searchChunksV2 db (a\<lparr>arg_threshold := None\<rparr>)"
  "searchChunksV2 db (a\<lparr>arg_threshold := Some (Fin 0)\<rparr>)
     = searchChunksV2 db (a\<lparr>arg_threshold := Some (Fin (7 / 10))\<rparr>)"
  by (simp_all add: searchChunksV2_def scanWindow_def cursorQuery_def modelQuery_def orDefault_def truthy_def
      cong: option.case_cong sum.case_cong prod.case_cong if_cong)

text \<open>
  C10. In each of the three handlers (\<open>vectorSearch\<close>, \<open>searchChunks\<close>,
  \<open>searchChunksV2\<close>) a call with an explicit \<open>limit = 0\<close> returns what the call without
  \<open>limit\<close> returns, which is what the call with \<open>limit = 10\<close> returns, and at most 10
  results; a call with an explicit \<open>threshold = 0\<close> returns what the call without
  \<open>threshold\<close> returns, which is what the call with \<open>threshold = 0.7\<close> returns, and
  every returned similarity is \<open>>= 0.7\<close>. So a zero limit or a zero threshold cannot be
  requested.
\<close>

theorem zero_arguments_fall_back_to_defaults:
  "(vectorSearch db (va\<lparr>vs_limit := Some (Fin 0)\<rparr>) = vectorSearch db (va\<lparr>vs_limit := None\<rparr>)
    \<and> vectorSearch db (va\<lparr>vs_limit := Some (Fin 0)\<rparr>) = vectorSearch db (va\<lparr>vs_limit := Some (Fin 10)\<rparr>)
    \<and> vectorSearch db (va\<lparr>vs_threshold := Some (Fin 0)\<rparr>) = vectorSearch db (va\<lparr>vs_threshold := None\<rparr>)
    \<and> vectorSearch db (va\<lparr>vs_threshold := Some (Fin 0)\<rparr>)
        = vectorSearch db (va\<lparr>vs_threshold := Some (Fin (7 / 10))\<rparr>)
    \<and> (\<forall>rs. vectorSearch db (va\<lparr>vs_limit := Some (Fin 0)\<rparr>) = Inr rs \<longrightarrow> length rs \<le> 10)
    \<and> (\<forall>rs. vectorSearch db (va\<lparr>vs_threshold := Some (Fin 0)\<rparr>) = Inr rs \<longrightarrow>
          (\<forall>r\<in>set rs. js_ge (vr_similarity r) (Fin (7 / 10)))))
   \<and> (searchChunks db (ca\<lparr>sc_limit := Some (Fin 0)\<rparr>) = searchChunks db (ca\<lparr>sc_limit := None\<rparr>)
    \<and> searchChunks db (ca\<lparr>sc_limit := Some (Fin 0)\<rparr>) = searchChunks db (ca\<lparr>sc_limit := Some (Fin 10)\<rparr>)
    \<and> searchChunks db (ca\<lparr>sc_threshold := Some (Fin 0)\<rparr>) = searchChunks db (ca\<lparr>sc_threshold := None\<rparr>)
    \<and> searchChunks db (ca\<lparr>sc_threshold := Some (Fin 0)\<rparr>)
        = searchChunks db (ca\<lparr>sc_threshold := Some (Fin (7 / 10))\<rparr>)
    \<and> (\<forall>cs. searchChunks db (ca\<lparr>sc_limit := Some (Fin 0)\<rparr>) = Inr cs \<longrightarrow> length cs \<le> 10)
    \<and> (\<forall>cs. searchChunks db (ca\<lparr>sc_threshold := Some (Fin 0)\<rparr>) = Inr cs \<longrightarrow>
          (\<forall>r\<in>set cs. js_ge (cr_similarity r) (Fin (7 / 10)))))
   \<and> (searchChunksV2 db (a\<lparr>arg_limit := Some (Fin 0)\<rparr>) = searchChunksV2 db (a\<lparr>arg_limit := None\<rparr>)
    \<and> searchChunksV2 db (a\<lparr>arg_limit := Some (Fin 0)\<rparr>) = searchChunksV2 db (a\<lparr>arg_limit := Some (Fin 10)\<rparr>)
    \<and> searchChunksV2 db (a\<lparr>arg_threshold := Some (Fin 0)\<rparr>) = searchChunksV2 db (a\<lparr>arg_threshold := None\<rparr>)
    \<and> searchChunksV2 db (a\<lparr>arg_threshold := Some (Fin 0)\<rparr>)
        = searchChunksV2 db (a\<lparr>arg_threshold := Some (Fin (7 / 10))\<rparr>)
    \<and> (\<forall>p. searchChunksV2 db (a\<lparr>arg_limit := Some (Fin 0)\<rparr>) = Inr p \<longrightarrow> length (results p) \<le> 10)
    \<and> (\<forall>p. searchChunksV2 db (a\<lparr>arg_threshold := Some (Fin 0)\<rparr>) = Inr p \<longrightarrow>
          (\<forall>r\<in>set (results p). js_ge (r_similarity r) (Fin (7 / 10)))))"
proof (intro conjI allI impI)
  fix rs assume "vectorSearch db (va\<lparr>vs_limit := Some (Fin 0)\<rparr>) = Inr rs"
  then show "length rs \<le> 10"
    using vectorSearch_bounds(2) by (simp add: orDefault_zero_limit)
next
  fix rs assume "vectorSearch db (va\<lparr>vs_threshold := Some (Fin 0)\<rparr>) = Inr rs"
  then show "\<forall>r\<in>set rs. js_ge (vr_similarity r) (Fin (7 / 10))"
    using vectorSearch_bounds(1) [of db "va\<lparr>vs_threshold := Some (Fin 0)\<rparr>" rs]
    by (simp add: orDefault_zero_threshold)
next
  fix cs assume "searchChunks db (ca\<lparr>sc_limit := Some (Fin 0)\<rparr>) = Inr cs"
  then show "length cs \<le> 10"
    using searchChunks_bounds(2) by (simp add: orDefault_zero_limit)
next
  fix cs assume "searchChunks db (ca\<lparr>sc_threshold := Some (Fin 0)\<rparr>) = Inr cs"
  then show "\<forall>r\<in>set cs. js_ge (cr_similarity r) (Fin (7 / 10))"
    using searchChunks_bounds(1) [of db "ca\<lparr>sc_threshold := Some (Fin 0)\<rparr>" cs]
    by (simp add: orDefault_zero_threshold)
next
  fix p assume "searchChunksV2 db (a\<lparr>arg_limit := Some (Fin 0)\<rparr>) = Inr p"
  then show "length (results p) \<le> 10"
    using searchChunksV2_bounds(2) by (simp add: orDefault_zero_limit)
next
  fix p assume "searchChunksV2 db (a\<lparr>arg_threshold := Some (Fin 0)\<rparr>) = Inr p"
  then show "\<forall>r\<in>set (results p). js_ge (r_similarity r) (Fin (7 / 10))"
    using searchChunksV2_bounds(1) [of db "a\<lparr>arg_threshold := Some (Fin 0)\<rparr>" p]
    by (simp add: orDefault_zero_threshold)
qed (rule vectorSearch_zero searchChunks_zero searchChunksV2_zero)+

theorem zero_arguments_fall_back_to_defaults_witness:
  "vectorSearch example_db (example_vs_args\<lparr>vs_limit := Some (Fin 0)\<rparr>)
     = Inr [\<lparr>vr_document = \<lparr>mem_id = ''m1'', mem_memoryType = Semantic, mem_content = ''note'',
                              mem_embedding = [Fin 1, Fin 0], mem_magnitude = Fin 1,
                              mem_agentId = None\<rparr>,
              vr_similarity = Fin 1, vr_documentId = ''m1''\<rparr>]
   \<and> vectorSearch example_db (example_vs_args\<lparr>vs_threshold := Some (Fin 0)\<rparr>)
     = Inr [\<lparr>vr_document = \<lparr>mem_id = ''m1'', mem_memoryType = Semantic, mem_content = ''note'',
                              mem_embedding = [Fin 1, Fin 0], mem_magnitude = Fin 1,
                              mem_agentId = None\<rparr>,
              vr_similarity = Fin 1, vr_documentId = ''m1''\<rparr>]
   \<and> searchChunks example_db (example_sc_args\<lparr>sc_limit := Some (Fin 0)\<rparr>)
     = Inr [\<lparr>cr_chunk = \<lparr>chunk_id = ''c1'', chunk_documentId = ''d1'', chunk_content = ''text'',
                           chunk_embedding = Some [Fin 1, Fin 0], chunk_magnitude = Some (Fin 1)\<rparr>,
              cr_similarity = Fin 1,
              cr_document = Some \<lparr>doc_id = ''d1'', doc_title = ''doc''\<rparr>\<rparr>]
   \<and> searchChunks example_db (example_sc_args\<lparr>sc_threshold := Some (Fin 0)\<rparr>)
     = Inr [\<lparr>cr_chunk = \<lparr>chunk_id = ''c1'', chunk_documentId = ''d1'', chunk_content = ''text'',
                           chunk_embedding = Some [Fin 1, Fin 0], chunk_magnitude = Some (Fin 1)\<rparr>,
              cr_similarity = Fin 1,
              cr_document = Some \<lparr>doc_id = ''d1'', doc_title = ''doc''\<rparr>\<rparr>]
   \<and> searchChunksV2 example_db (example_args\<lparr>arg_limit := Some (Fin 0)\<rparr>) = Inr example_page
   \<and> searchChunksV2 example_db (example_args\<lparr>arg_threshold := Some (Fin 0)\<rparr>) = Inr example_page"
proof -
  have vs: "vectorSearch example_db example_vs_args
     = Inr [\<lparr>vr_document = \<lparr>mem_id = ''m1'', mem_memoryType = Semantic, mem_content = ''note'',
                              mem_embedding = [Fin 1, Fin 0], mem_magnitude = Fin 1,
                              mem_agentId = None\<rparr>,
              vr_similarity = Fin 1, vr_documentId = ''m1''\<rparr>]"
    by (simp add: vectorSearch_def vectorSearch_candidates_def example_db_def example_vs_args_def
        truthyStr_def orDefault_def cosineSimilarityWithMagnitude_def dotLoop_def squareLoop_def
        rankScored_def sortWith_def truncInt_def js_sub_def Let_def)
  have sc: "searchChunks example_db example_sc_args
     = Inr [\<lparr>cr_chunk = \<lparr>chunk_id = ''c1'', chunk_documentId = ''d1'', chunk_content = ''text'',
                           chunk_embedding = Some [Fin 1, Fin 0], chunk_magnitude = Some (Fin 1)\<rparr>,
              cr_similarity = Fin 1,
              cr_document = Some \<lparr>doc_id = ''d1'', doc_title = ''doc''\<rparr>\<rparr>]"
    by (simp add: searchChunks_def example_db_def example_sc_args_def truthy_def
        orDefault_def cosineSimilarityWithMagnitude_def dotLoop_def squareLoop_def
        rankScored_def sortWith_def truncInt_def js_sub_def List.map_filter_def
        uniq_def docMap_def getDocument_def Let_def)
  have n1: "example_vs_args\<lparr>vs_limit := None\<rparr> = example_vs_args"
    and n2: "example_vs_args\<lparr>vs_threshold := None\<rparr> = example_vs_args"
    by (simp_all add: example_vs_args_def)
  have n3: "example_sc_args\<lparr>sc_limit := None\<rparr> = example_sc_args"
    and n4: "example_sc_args\<lparr>sc_threshold := None\<rparr> = example_sc_args"
    by (simp_all add: example_sc_args_def)
  have n5: "example_args\<lparr>arg_limit := None\<rparr> = example_args"
    and n6: "example_args\<lparr>arg_threshold := None\<rparr> = example_args"
    by (simp_all add: example_args_def)
  show ?thesis
    using zero_arguments_fall_back_to_defaults [of example_db example_vs_args example_sc_args example_args]
    by (simp only: n1 n2 n3 n4 n5 n6 vs sc example_run)
qed

text \<open>
  C7. A call of \<open>searchChunksV2\<close> with another \<open>limit\<close> and another \<open>threshold\<close>, on
  the same database with the same cursor and model filter, returns the same
  \<open>nextCursor\<close> and the same \<open>hasMore\<close> (and raises the same error, if it raises
  one).
\<close>

theorem cursor_independent_of_threshold_and_limit:
  "map_sum id (\<lambda>p. (nextCursor p, hasMore p)) (searchChunksV2 db (args\<lparr>arg_limit := l, arg_threshold := t\<rparr>))
   = map_sum id (\<lambda>p. (nextCursor p, hasMore p)) (searchChunksV2 db args)"
  by (simp add: searchChunksV2_def scanWindow_limit_threshold Let_def split: sum.splits)


text \<open>
  C4, amended. When the scan window has fewer than 1000 candidates, the returned page
  has \<open>hasMore = false\<close>; its \<open>nextCursor\<close> is \<open>null\<close> exactly when the window is
  empty, and is the cursor of the last scanned candidate otherwise.
\<close>

theorem short_window_is_last_page:
  assumes "length (scanWindow db args) < 1000" and "searchChunksV2 db args = Inr p"
  shows "hasMore p = False
     \<and> (nextCursor p = None \<longleftrightarrow> scanWindow db args = [])
     \<and> (scanWindow db args \<noteq> [] \<longrightarrow>
          nextCursor p = Some (encodeCursor (emb_createdAt (last (scanWindow db args)))
                                 (emb_id (last (scanWindow db args)))))"
  using assms searchChunksV2_page [OF assms(2)] by auto

theorem short_window_is_last_page_witness:
  "length (scanWindow example_db example_args) < 1000
   \<and> searchChunksV2 example_db example_args = Inr example_page
   \<and> hasMore example_page = False
   \<and> (nextCursor example_page = None) = (scanWindow example_db example_args = [])
   \<and> scanWindow example_db example_args \<noteq> []
   \<and> nextCursor example_page
       = Some (encodeCursor (emb_createdAt (last (scanWindow example_db example_args)))
                 (emb_id (last (scanWindow example_db example_args))))"
proof -
  have short: "length (scanWindow example_db example_args) < 1000"
    by (simp add: example_window) (simp add: example_db_def)
  have ne: "scanWindow example_db example_args \<noteq> []"
    by (simp add: example_window) (simp add: example_db_def)
  show ?thesis
    using short_window_is_last_page [OF short example_run] short ne example_run by simp
qed

text \<open>
  C4 as stated fails on a window of one candidate: \<open>hasMore\<close> is false and
  \<open>nextCursor\<close> is the cursor of that candidate, not \<open>null\<close>.
\<close>

theorem short_window_counterexample:
  "length (scanWindow example_db example_args) < 1000
   \<and> map_sum id (\<lambda>p. (nextCursor p, hasMore p)) (searchChunksV2 example_db example_args)
       = Inr (Some ''5:e1'', False)"
  by (simp add: example_run example_window) (simp add: example_db_def example_page_def)

text \<open>
  C3, amended. Neither handler validates the query embedding. When the query has a
  \<open>NaN\<close> or infinite entry (\<open>validateVector\<close> rejects it) and every scanned candidate
  has the length of the query, the call returns a result: every similarity computed
  against a non-zero stored magnitude is \<open>NaN\<close> and fails the threshold test, so a
  returned entry has similarity \<open>0\<close> (a candidate stored with magnitude \<open>0\<close>), and with
  an effective threshold above \<open>0\<close>, the default \<open>0.7\<close> included, the result list is
  empty.
\<close>

theorem invalid_query_is_not_rejected:
  assumes "\<not> validateVector (vs_embedding va) None"
    and "\<forall>m\<in>set (vectorSearch_candidates db va). length (mem_embedding m) = length (vs_embedding va)"
    and "\<not> validateVector (arg_embedding a) None"
    and "\<forall>e\<in>set (scanWindow db a). length (emb_embedding e) = length (arg_embedding a)"
  shows "(\<exists>rs. vectorSearch db va = Inr rs
            \<and> (\<forall>r\<in>set rs. vr_similarity r = Fin 0)
            \<and> (js_gt (orDefault (vs_threshold va) (Fin (7 / 10))) (Fin 0) \<longrightarrow> rs = []))
       \<and> (\<exists>p. searchChunksV2 db a = Inr p
            \<and> (\<forall>r\<in>set (results p). r_similarity r = Fin 0)
            \<and> (js_gt (orDefault (arg_threshold a) (Fin (7 / 10))) (Fin 0) \<longrightarrow> results p = []))"
proof
  have bad: "\<exists>x\<in>set (vs_embedding va). \<not> js_isFinite x"
    using assms(1) by (simp add: invalid_iff)
  obtain scoredDocs where s:
    "mapE (\<lambda>doc. case cosineSimilarityWithMagnitude (vs_embedding va) (mem_embedding doc)
                        (js_sqrt (squareLoop (vs_embedding va))) (mem_magnitude doc) of
                    Inl e \<Rightarrow> Inl e | Inr sim \<Rightarrow> Inr (doc, sim)) (vectorSearch_candidates db va) = Inr scoredDocs"
    "\<forall>r\<in>set scoredDocs. snd r = Fin 0 \<or> snd r = NaN"
    using invalid_scored [OF bad assms(2), of mem_magnitude] by blast
  show "\<exists>rs. vectorSearch db va = Inr rs
            \<and> (\<forall>r\<in>set rs. vr_similarity r = Fin 0)
            \<and> (js_gt (orDefault (vs_threshold va) (Fin (7 / 10))) (Fin 0) \<longrightarrow> rs = [])"
    using ranked_invalid [OF s(2), of "orDefault (vs_threshold va) (Fin (7 / 10))" "orDefault (vs_limit va) (Fin 10)"]
    by (auto simp add: vectorSearch_def s(1))
next
  have bad: "\<exists>x\<in>set (arg_embedding a). \<not> js_isFinite x"
    using assms(3) by (simp add: invalid_iff)
  obtain scoredDocs where s:
    "mapE (\<lambda>emb. case cosineSimilarityWithMagnitude (arg_embedding a) (emb_embedding emb)
                        (js_sqrt (squareLoop (arg_embedding a))) (emb_magnitude emb) of
                    Inl e \<Rightarrow> Inl e | Inr sim \<Rightarrow> Inr (emb, sim)) (scanWindow db a) = Inr scoredDocs"
    "\<forall>r\<in>set scoredDocs. snd r = Fin 0 \<or> snd r = NaN"
    using invalid_scored [OF bad assms(4), of emb_magnitude] by blast
  show "\<exists>p. searchChunksV2 db a = Inr p
            \<and> (\<forall>r\<in>set (results p). r_similarity r = Fin 0)
            \<and> (js_gt (orDefault (arg_threshold a) (Fin (7 / 10))) (Fin 0) \<longrightarrow> results p = [])"
    using ranked_invalid [OF s(2), of "orDefault (arg_threshold a) (Fin (7 / 10))" "orDefault (arg_limit a) (Fin 10)"]
    by (auto simp add: searchChunksV2_def s(1) Let_def dest!: set_zip_leftD)
qed

theorem invalid_query_is_not_rejected_witness:
  "\<not> validateVector [NaN, Fin 0] None
   \<and> \<not> validateVector [PosInf, Fin 0] None
   \<and> (\<exists>rs. vectorSearch example_db (example_vs_args\<lparr>vs_embedding := [NaN, Fin 0]\<rparr>) = Inr rs
            \<and> rs = [])
   \<and> (\<exists>p. searchChunksV2 example_db (example_args\<lparr>arg_embedding := [PosInf, Fin 0]\<rparr>) = Inr p
            \<and> results p = [])"
proof -
  let ?va = "example_vs_args\<lparr>vs_embedding := [NaN, Fin 0]\<rparr>"
  let ?a = "example_args\<lparr>arg_embedding := [PosInf, Fin 0]\<rparr>"
  have h1: "\<not> validateVector (vs_embedding ?va) None"
    by (simp add: validateVector_def js_isNaN_def)
  have h2: "\<forall>m\<in>set (vectorSearch_candidates example_db ?va).
              length (mem_embedding m) = length (vs_embedding ?va)"
    by (simp add: vectorSearch_candidates_def example_vs_args_def truthyStr_def example_db_def)
  have h3: "\<not> validateVector (arg_embedding ?a) None"
    by (simp add: validateVector_def js_isNaN_def js_isFinite_def)
  have h4: "\<forall>e\<in>set (scanWindow example_db ?a). length (emb_embedding e) = length (arg_embedding ?a)"
    by (simp add: scanWindow_def cursorQuery_def modelQuery_def example_args_def truthyStr_def example_db_def)
  have t1: "js_gt (orDefault (vs_threshold ?va) (Fin (7 / 10))) (Fin 0)"
    by (simp add: orDefault_def example_vs_args_def)
  have t2: "js_gt (orDefault (arg_threshold ?a) (Fin (7 / 10))) (Fin 0)"
    by (simp add: orDefault_def example_args_def)
  show ?thesis
    using invalid_query_is_not_rejected [OF h1 h2 h3 h4] h1 h3 t1 t2 by auto
qed

text \<open>
  C3 as stated fails: a query with a \<open>NaN\<close> entry, and one with an infinite entry, get
  a successful empty result from \<open>vectorSearch\<close> and from \<open>searchChunksV2\<close>.
\<close>

theorem invalid_query_counterexample:
  "\<not> validateVector [NaN, Fin 0] None
   \<and> vectorSearch example_db (example_vs_args\<lparr>vs_embedding := [NaN, Fin 0]\<rparr>) = Inr []
   \<and> \<not> validateVector [PosInf, Fin 0] None
   \<and> searchChunksV2 example_db (example_args\<lparr>arg_embedding := [PosInf, Fin 0]\<rparr>)
       = Inr \<lparr>results = [], nextCursor = Some ''5:e1'', hasMore = False\<rparr>"
  by (simp add: validateVector_def js_isNaN_def js_isFinite_def
      vectorSearch_def vectorSearch_candidates_def searchChunksV2_def scanWindow_def cursorQuery_def modelQuery_def
      example_db_def example_args_def example_vs_args_def truthyStr_def orDefault_def
      cosineSimilarityWithMagnitude_def dotLoop_def squareLoop_def rankScored_def sortWith_def
      truncInt_def encodeCursor_def showNat_5 signed_inf_def)

section \<open>The cursor of searchChunksV2\<close>


lemma digit_cases: "d < 10 \<Longrightarrow> d \<in> {0, 1, 2, 3, 4, 5, 6, 7, 8, 9::nat}"
  by auto

lemma digitChar_in: "d < 10 \<Longrightarrow> digitChar d \<in> set ''0123456789''"
  using digit_cases [of d] by (auto simp add: digitChar_def)

lemma digitValue_digitChar: "d < 10 \<Longrightarrow> digitValue (digitChar d) = Some d"
  using digit_cases [of d] by (auto simp add: digitChar_def digitValue_def)

lemma showNat_digits: "c \<in> set (showNat n) \<Longrightarrow> c \<in> set ''0123456789''"
proof (induction n rule: showNat.induct)
  case (1 n)
  show ?case
  proof (cases "n < 10")
    case True
    then show ?thesis using "1.prems" digitChar_in [of n] by (simp add: showNat.simps [of n])
  next
    case False
    then have "c \<in> set (showNat (n div 10)) \<or> c = digitChar (n mod 10)"
      using "1.prems" by (auto simp add: showNat.simps [of n])
    then show ?thesis
      using "1.IH" False digitChar_in [of "n mod 10"] by auto
  qed
qed

lemma showNat_nonempty: "showNat n \<noteq> []"
  by (simp add: showNat.simps [of n])

lemma decimal_digit: "c \<in> set ''0123456789'' \<Longrightarrow>
   radixDigit 10 c \<and> \<not> isWhiteSpace c \<and> c \<noteq> CHR ''+'' \<and> c \<noteq> CHR ''-'' \<and> c \<noteq> CHR ''x''
   \<and> c \<noteq> CHR ''X'' \<and> c \<noteq> CHR '':''"
  by (auto simp add: radixDigit_def digitValue_def isWhiteSpace_def)

lemma digitsValue_snoc:
  "digitsValue R (z @ [c]) = digitsValue R z * R + (case digitValue c of None \<Rightarrow> 0 | Some d \<Rightarrow> d)"
  by (simp add: digitsValue_def)

lemma digitsValue_showNat: "digitsValue 10 (showNat n) = n"
proof (induction n rule: showNat.induct)
  case (1 n)
  show ?case
  proof (cases "n < 10")
    case True
    then show ?thesis
      by (simp add: showNat.simps [of n] digitsValue_def digitValue_digitChar)
  next
    case False
    then show ?thesis
      using "1.IH" by (simp add: showNat.simps [of n] digitsValue_snoc digitValue_digitChar)
  qed
qed

lemma parseInt_showNat: "parseInt (showNat n) = Fin (real n)"
proof -
  obtain c cs where s: "showNat n = c # cs"
    using showNat_nonempty [of n] by (cases "showNat n") auto
  have all: "\<forall>d\<in>set (showNat n). radixDigit 10 d \<and> \<not> isWhiteSpace d \<and> d \<noteq> CHR ''+'' \<and> d \<noteq> CHR ''-''
       \<and> d \<noteq> CHR ''x'' \<and> d \<noteq> CHR ''X'' \<and> d \<noteq> CHR '':''"
    using showNat_digits [of _ n] decimal_digit by blast
  have dw: "dropWhile isWhiteSpace (showNat n) = showNat n"
    using all by (simp add: s)
  have neg: "(case showNat n of [] \<Rightarrow> False | c # r \<Rightarrow> c = CHR ''-'') = False"
    using all by (simp add: s)
  have s1: "(case showNat n of [] \<Rightarrow> [] | c # r \<Rightarrow> if c = CHR ''+'' \<or> c = CHR ''-'' then r else showNat n)
              = showNat n"
    using all by (simp add: s)
  have hex: "(case showNat n of a # b # r \<Rightarrow> a = CHR ''0'' \<and> (b = CHR ''x'' \<or> b = CHR ''X'') | _ \<Rightarrow> False) = False"
    using all unfolding s by (cases cs) auto
  have tw: "takeWhile (radixDigit 10) (showNat n) = showNat n"
    using all by (intro takeWhile_eq_all_conv [THEN iffD2]) blast
  show ?thesis
    unfolding parseInt_def Let_def dw neg s1 hex
    by (simp add: tw showNat_nonempty digitsValue_showNat)
qed

lemma splitOn_none: "c \<notin> set xs \<Longrightarrow> splitOn c xs = [xs]"
  by (induction xs) auto

lemma splitOn_first: "c \<notin> set xs \<Longrightarrow> splitOn c (xs @ c # ys) = xs # splitOn c ys"
  by (induction xs) auto

lemma splitOn_cursor:
  "CHR '':'' \<notin> set i \<Longrightarrow> splitOn CHR '':'' (encodeCursor t i) = [showNat t, i]"
proof -
  assume i: "CHR '':'' \<notin> set i"
  have "CHR '':'' \<notin> set (showNat t)"
    using showNat_digits [of "CHR '':''" t] by auto
  then show ?thesis
    using i by (simp add: encodeCursor_def splitOn_first splitOn_none)
qed

lemma cursorFilter_encodeCursor:
  "CHR '':'' \<notin> set i \<Longrightarrow>
     cursorFilter (encodeCursor t i)
       = (\<lambda>e. emb_createdAt e < t \<or> (emb_createdAt e = t \<and> emb_id e < i))"
  by (rule ext) (simp add: cursorFilter_def splitOn_cursor parseInt_showNat)

lemma encodeCursor_nonempty: "encodeCursor t i \<noteq> []"
  by (simp add: encodeCursor_def)


lemma scanWindow_encodeCursor:
  assumes "CHR '':'' \<notin> set i"
  shows "scanWindow db (args\<lparr>arg_cursor := Some (encodeCursor t i)\<rparr>)
           = take 1000 (filter (\<lambda>e. emb_createdAt e < t \<or> (emb_createdAt e = t \<and> emb_id e < i))
                          (modelQuery db args))"
proof -
  have "modelQuery db (args\<lparr>arg_cursor := Some (encodeCursor t i)\<rparr>) = modelQuery db args"
    by (simp add: modelQuery_def)
  then show ?thesis
    using assms
    by (simp add: scanWindow_def cursorQuery_def encodeCursor_nonempty cursorFilter_encodeCursor)
qed

text \<open>
  C5. With the cursor that encodes \<open>(t, id)\<close> (an id has no colon), the scan window is
  the first 1000, in scan order, of the candidates of the model query that are
  strictly before \<open>(t, id)\<close>: \<open>createdAt < t\<close>, or \<open>createdAt = t\<close> and \<open>_id < id\<close>. Every
  scanned candidate is strictly before \<open>(t, id)\<close>, and a window below the cap holds all
  of those.
\<close>

theorem cursor_resumes_strictly_before:
  assumes "CHR '':'' \<notin> set i"
  shows "scanWindow db (args\<lparr>arg_cursor := Some (encodeCursor t i)\<rparr>)
           = take 1000 (filter (\<lambda>e. emb_createdAt e < t \<or> (emb_createdAt e = t \<and> emb_id e < i))
                          (modelQuery db args))
       \<and> (\<forall>e\<in>set (scanWindow db (args\<lparr>arg_cursor := Some (encodeCursor t i)\<rparr>)).
             e \<in> set (modelQuery db args)
             \<and> (emb_createdAt e < t \<or> (emb_createdAt e = t \<and> emb_id e < i)))
       \<and> (length (scanWindow db (args\<lparr>arg_cursor := Some (encodeCursor t i)\<rparr>)) < 1000 \<longrightarrow>
             set (scanWindow db (args\<lparr>arg_cursor := Some (encodeCursor t i)\<rparr>))
               = {e \<in> set (modelQuery db args).
                    emb_createdAt e < t \<or> (emb_createdAt e = t \<and> emb_id e < i)})"
  unfolding scanWindow_encodeCursor [OF assms] by (auto dest: in_set_takeD)

theorem cursor_resumes_strictly_before_witness:
  "CHR '':'' \<notin> set ''e2''
   \<and> encodeCursor 5 ''e2'' = ''5:e2''
   \<and> scanWindow (example_db\<lparr>chunkEmbeddings := example_rows\<rparr>)
        (example_args\<lparr>arg_cursor := Some ''5:e2''\<rparr>)
      = [\<lparr>emb_id = ''e1'', emb_chunkId = ''c1'', emb_embedding = [Fin 1, Fin 0],
          emb_magnitude = Fin 1, emb_model = ''voyage'', emb_createdAt = 5\<rparr>]"
proof -
  have c: "CHR '':'' \<notin> set ''e2''"
    by simp
  have e: "encodeCursor 5 ''e2'' = ''5:e2''"
    by (simp add: encodeCursor_def showNat_5)
  show ?thesis
    using cursor_resumes_strictly_before [OF c, where db = "example_db\<lparr>chunkEmbeddings := example_rows\<rparr>"
        and args = example_args and t = 5] c e
    by (simp add: modelQuery_def example_args_def truthyStr_def example_rows_def)
qed

section \<open>Pagination sessions\<close>


lemma similarity_total:
  "length b = length q \<Longrightarrow> \<exists>s. cosineSimilarityWithMagnitude q b ma mb = Inr s"
  by (simp add: cosineSimilarityWithMagnitude_def Let_def)

lemma searchChunksV2_total:
  assumes "\<forall>e\<in>set (scanWindow db args). length (emb_embedding e) = length (arg_embedding args)"
  shows "\<exists>p. searchChunksV2 db args = Inr p"
proof -
  let ?f = "\<lambda>emb. case cosineSimilarityWithMagnitude (arg_embedding args) (emb_embedding emb)
                       (js_sqrt (squareLoop (arg_embedding args))) (emb_magnitude emb) of
                  Inl e \<Rightarrow> Inl e
                | Inr sim \<Rightarrow> Inr (emb, sim)"
  have "\<forall>e\<in>set (scanWindow db args). \<exists>y. ?f e = Inr y"
  proof
    fix e assume "e \<in> set (scanWindow db args)"
    then have "length (emb_embedding e) = length (arg_embedding args)" using assms by blast
    then obtain s where "cosineSimilarityWithMagnitude (arg_embedding args) (emb_embedding e)
                       (js_sqrt (squareLoop (arg_embedding args))) (emb_magnitude e) = Inr s"
      using similarity_total by blast
    then show "\<exists>y. ?f e = Inr y" by simp
  qed
  then obtain ys where "mapE ?f (scanWindow db args) = Inr ys"
    using mapE_total [of "scanWindow db args" ?f] by blast
  then show ?thesis
    by (simp add: searchChunksV2_def Let_def)
qed

lemma filter_less_upt: "filter (\<lambda>n. n < k) [i..<j] = [i..<min k j]"
  by (induction j) auto

lemma count_list_upt: "count_list [i..<j] n = (if i \<le> n \<and> n < j then 1 else 0)"
  by (induction j) auto

lemma big_first_window: "scanWindow big_db example_args = map pool_row [1..<1001]"
  by (simp add: scanWindow_def cursorQuery_def modelQuery_def example_args_def truthyStr_def big_db_def take_map)

lemma showNat_no_colon: "CHR '':'' \<notin> set (showNat n)"
  using showNat_digits [of "CHR '':''" n] by auto

lemma big_second_window:
  "scanWindow big_db (example_args\<lparr>arg_cursor := Some (encodeCursor 1000 (showNat 1000))\<rparr>)
     = map pool_row [1..<1000]"
proof -
  have "filter ((\<lambda>e. emb_createdAt e < 1000 \<or> (emb_createdAt e = 1000 \<and> emb_id e < showNat 1000)) \<circ> pool_row) [1..<1002]
          = filter (\<lambda>n. n < 1000) [1..<1002]"
    by (rule filter_cong) (auto simp add: pool_row_def)
  then show ?thesis
    using scanWindow_encodeCursor [OF showNat_no_colon [of 1000], where db = big_db
        and args = example_args and t = 1000]
    by (simp add: modelQuery_def example_args_def truthyStr_def big_db_def filter_map filter_less_upt take_map)
qed

lemma big_dims:
  "\<forall>e\<in>set (map pool_row ns).
      length (emb_embedding e) = length (arg_embedding (example_args\<lparr>arg_cursor := c\<rparr>))"
  "\<forall>e\<in>set (map pool_row ns). length (emb_embedding e) = length (arg_embedding example_args)"
  by (simp_all add: pool_row_def example_args_def)


text \<open>
  C6 on a table of 1001 rows in creation order. The first call scans rows 1 to 1000,
  reports \<open>hasMore\<close> and returns the cursor of row 1000. The second call scans what
  is strictly before row 1000, rows 1 to 999 again, and ends the session: row 1001 is
  never scanned, and row 1 is scanned twice.
\<close>

theorem ascending_scan_repeats_first_page:
  "runSession 2 big_db example_args = Done [map pool_row [1..<1001], map pool_row [1..<1000]]
   \<and> pool_row 1001 \<in> set (chunkEmbeddings big_db)
   \<and> pool_row 1001 \<notin> set (concat [map pool_row [1..<1001], map pool_row [1..<1000]])
   \<and> count_list (concat [map pool_row [1..<1001], map pool_row [1..<1000]]) (pool_row 1) = 2"
proof -
  have inj: "\<And>m n. pool_row m = pool_row n \<longleftrightarrow> m = n"
    by (auto simp add: pool_row_def)
  obtain p1 where p1: "searchChunksV2 big_db example_args = Inr p1"
    using searchChunksV2_total [of big_db example_args] big_dims(2) [of "[1..<1001]"]
    unfolding big_first_window by blast
  have last1: "last (scanWindow big_db example_args) = pool_row 1000"
    by (simp add: big_first_window last_map)
  have len1: "length (scanWindow big_db example_args) = 1000"
    by (simp add: big_first_window)
  then have ne1: "scanWindow big_db example_args \<noteq> []"
    by auto
  have h1: "hasMore p1"
    using searchChunksV2_page(1) [OF p1] len1 by simp
  have c1: "nextCursor p1 = Some (encodeCursor 1000 (showNat 1000))"
    using searchChunksV2_page(2) [OF p1] ne1 by (simp add: last1) (simp add: pool_row_def)
  let ?a2 = "example_args\<lparr>arg_cursor := Some (encodeCursor 1000 (showNat 1000))\<rparr>"
  obtain p2 where p2: "searchChunksV2 big_db ?a2 = Inr p2"
    using searchChunksV2_total [of big_db ?a2] big_dims(1) [of "[1..<1000]"]
    unfolding big_second_window by blast
  have h2: "\<not> hasMore p2"
    using searchChunksV2_page(1) [OF p2] by (simp add: big_second_window)
  have two: "(2::nat) = Suc (Suc 0)" by simp
  have run: "runSession 2 big_db example_args = Done [map pool_row [1..<1001], map pool_row [1..<1000]]"
    unfolding two by (simp add: p1 h1 c1 p2 h2 big_first_window big_second_window)
  have mem: "pool_row 1001 \<in> set (chunkEmbeddings big_db)"
    by (simp add: big_db_def)
  have miss: "pool_row 1001 \<notin> set (concat [map pool_row [1..<1001], map pool_row [1..<1000]])"
    by (auto simp add: inj)
  have cm: "count_list (map pool_row ns) (pool_row k) = count_list ns k" for ns k
    by (induction ns) (simp_all add: inj)
  have twice: "count_list (concat [map pool_row [1..<1001], map pool_row [1..<1000]]) (pool_row 1) = 2"
    by (simp add: cm count_list_upt)
  show ?thesis using run mem miss twice by simp
qed

text \<open>
  The session covers the pool when the scan yields the rows in strictly descending
  order of \<open>(createdAt, _id)\<close>, the order the cursor filter assumes: then the calls
  reach a page with \<open>hasMore = false\<close> and their windows, one after the other, are the
  rows of the model query, each once.
\<close>

lemma rowBefore_irrefl: "\<not> rowBefore a a"
  by (simp add: rowBefore_def)

lemma rowBefore_asym: "rowBefore a b \<Longrightarrow> \<not> rowBefore b a"
  by (auto simp add: rowBefore_def)

lemma filter_before_descending:
  assumes "sorted_wrt (\<lambda>a b. rowBefore b a) (A @ e # B)"
  shows "filter (\<lambda>x. rowBefore x e) (A @ e # B) = B"
proof -
  have a: "\<forall>x\<in>set A. rowBefore e x" and b: "\<forall>x\<in>set B. rowBefore x e"
    using assms by (auto simp add: sorted_wrt_append)
  have "filter (\<lambda>x. rowBefore x e) A = []"
    using a rowBefore_asym by (auto simp add: filter_empty_conv)
  moreover have "filter (\<lambda>x. rowBefore x e) B = B"
    using b by (simp add: filter_id_conv)
  ultimately show ?thesis by (simp add: rowBefore_irrefl)
qed

lemma cursorQuery_next:
  assumes "CHR '':'' \<notin> set (emb_id e)"
  shows "cursorQuery db (args\<lparr>arg_cursor := Some (encodeCursor (emb_createdAt e) (emb_id e))\<rparr>)
           = filter (\<lambda>x. rowBefore x e) (modelQuery db args)"
proof -
  have "(\<lambda>x. emb_createdAt x < emb_createdAt e \<or> (emb_createdAt x = emb_createdAt e \<and> emb_id x < emb_id e))
          = (\<lambda>x. rowBefore x e)"
    by (rule ext) (simp add: rowBefore_def)
  then show ?thesis
    using assms
    by (simp add: cursorQuery_def modelQuery_def encodeCursor_nonempty cursorFilter_encodeCursor)
qed

lemma descending_session:
  assumes sorted: "sorted_wrt (\<lambda>a b. rowBefore b a) (modelQuery db args)"
    and ids: "\<forall>e\<in>set (modelQuery db args). CHR '':'' \<notin> set (emb_id e)"
    and dims: "\<forall>e\<in>set (modelQuery db args). length (emb_embedding e) = length (arg_embedding args)"
  shows "modelQuery db args = P @ cursorQuery db (args\<lparr>arg_cursor := c\<rparr>) \<Longrightarrow>
         length (cursorQuery db (args\<lparr>arg_cursor := c\<rparr>)) < 1000 * n \<Longrightarrow>
         \<exists>ws. runSession n db (args\<lparr>arg_cursor := c\<rparr>) = Done ws
              \<and> concat ws = cursorQuery db (args\<lparr>arg_cursor := c\<rparr>)"
proof (induction n arbitrary: P c)
  case 0
  then show ?case by simp
next
  case (Suc n)
  let ?a = "args\<lparr>arg_cursor := c\<rparr>"
  let ?S = "cursorQuery db ?a"
  have mq: "\<And>c. modelQuery db (args\<lparr>arg_cursor := c\<rparr>) = modelQuery db args"
    by (simp add: modelQuery_def)
  have sub: "set ?S \<subseteq> set (modelQuery db args)"
    using Suc.prems(1) by (metis Un_upper2 set_append)
  have "\<forall>e\<in>set (scanWindow db ?a). length (emb_embedding e) = length (arg_embedding ?a)"
    using dims sub by (auto simp add: scanWindow_def dest: in_set_takeD)
  then obtain p where p: "searchChunksV2 db ?a = Inr p"
    using searchChunksV2_total by blast
  show ?case
  proof (cases "length ?S < 1000")
    case True
    then have "\<not> hasMore p" and "scanWindow db ?a = ?S"
      using searchChunksV2_page(1) [OF p] by (simp_all add: scanWindow_def)
    then show ?thesis by (simp add: p)
  next
    case False
    define e where "e = ?S ! 999"
    have len: "length (scanWindow db ?a) = 1000"
      using False by (simp add: scanWindow_def)
    then have ne: "scanWindow db ?a \<noteq> []" by auto
    have last: "last (scanWindow db ?a) = e"
      using False len ne by (simp add: last_conv_nth e_def scanWindow_def)
    have split: "?S = take 999 ?S @ e # drop 1000 ?S"
      using False id_take_nth_drop [of 999 ?S] by (simp add: e_def)
    have emem: "e \<in> set (modelQuery db args)"
      using sub False by (auto simp add: e_def)
    have more: "hasMore p"
      using searchChunksV2_page(1) [OF p] len by simp
    have cur: "nextCursor p = Some (encodeCursor (emb_createdAt e) (emb_id e))"
      using searchChunksV2_page(2) [OF p] ne by (simp add: last)
    let ?c' = "Some (encodeCursor (emb_createdAt e) (emb_id e))"
    have "modelQuery db args = (P @ take 999 ?S) @ e # drop 1000 ?S"
      using Suc.prems(1) split by (metis append.assoc)
    then have nxt: "cursorQuery db (args\<lparr>arg_cursor := ?c'\<rparr>) = drop 1000 ?S"
      using cursorQuery_next [of e db args] ids emem sorted
        filter_before_descending [of "P @ take 999 ?S" e "drop 1000 ?S"]
      by simp
    have pre: "modelQuery db args = (P @ take 1000 ?S) @ cursorQuery db (args\<lparr>arg_cursor := ?c'\<rparr>)"
      using Suc.prems(1) by (simp add: nxt)
    have shorter: "length (cursorQuery db (args\<lparr>arg_cursor := ?c'\<rparr>)) < 1000 * n"
      using Suc.prems(2) False by (simp add: nxt)
    obtain ws where ws: "runSession n db (args\<lparr>arg_cursor := ?c'\<rparr>) = Done ws"
        "concat ws = cursorQuery db (args\<lparr>arg_cursor := ?c'\<rparr>)"
      using Suc.IH [OF pre shorter] by blast
    have "runSession (Suc n) db ?a = Done (scanWindow db ?a # ws)"
      by (simp add: p more cur ws(1))
    moreover have "concat (scanWindow db ?a # ws) = ?S"
      by (simp add: ws(2) nxt scanWindow_def)
    ultimately show ?thesis by blast
  qed
qed

lemma descending_scan_covers_pool:
  assumes "sorted_wrt (\<lambda>a b. rowBefore b a) (modelQuery db args)"
    and "\<forall>e\<in>set (modelQuery db args). CHR '':'' \<notin> set (emb_id e)"
    and "\<forall>e\<in>set (modelQuery db args). length (emb_embedding e) = length (arg_embedding args)"
  shows "\<exists>ws. runSession (Suc (length (modelQuery db args) div 1000)) db (args\<lparr>arg_cursor := None\<rparr>) = Done ws
              \<and> concat ws = modelQuery db args"
proof -
  have c: "cursorQuery db (args\<lparr>arg_cursor := None\<rparr>) = modelQuery db args"
    by (simp add: cursorQuery_def modelQuery_def)
  have "length (modelQuery db args) < 1000 * Suc (length (modelQuery db args) div 1000)"
    by (simp add: dividend_less_times_div)
  then show ?thesis
    using descending_session [OF assms, of "[]" None "Suc (length (modelQuery db args) div 1000)"]
    by (simp add: c)
qed

end
